theory Spec2Isabelle
  imports Main "HOL-Library.Word"
begin

section \<open>JavaScript strings\<close>

text \<open>
  A JavaScript string is a sequence of UTF-16 code units; \<open>length\<close> counts code units.
  ASCII literals of the source are written with \<open>js\<close>.
\<close>

type_synonym jschar = "16 word"
type_synonym jsstring = "jschar list"

definition ch :: "char \<Rightarrow> jschar" where
  "ch c = of_nat (of_char c)"

definition js :: "string \<Rightarrow> jsstring" where
  "js s = map ch s"

datatype js_error = TypeError

text \<open>
  \<open>String.prototype.trim\<close> strips the WhiteSpace and LineTerminator code points of
  ECMAScript from both ends: TAB, VT, FF, SP, NBSP, ZWNBSP, the Unicode space separators,
  LF, CR, LS and PS.
\<close>

definition isWhiteSpace :: "jschar \<Rightarrow> bool" where
  "isWhiteSpace c \<longleftrightarrow>
     c = 0x0009 \<or> c = 0x000A \<or> c = 0x000B \<or> c = 0x000C \<or> c = 0x000D \<or> c = 0x0020 \<or>
     c = 0x00A0 \<or> c = 0x1680 \<or> (0x2000 \<le> c \<and> c \<le> 0x200A) \<or> c = 0x2028 \<or> c = 0x2029 \<or>
     c = 0x202F \<or> c = 0x205F \<or> c = 0x3000 \<or> c = 0xFEFF"

definition trim :: "jsstring \<Rightarrow> jsstring" where
  "trim s = rev (dropWhile isWhiteSpace (rev (dropWhile isWhiteSpace s)))"

text \<open>\<open>s.startsWith(q)\<close> and \<open>s.includes(q)\<close>, by scanning \<open>s\<close> from the left.\<close>

fun startsWith :: "jsstring \<Rightarrow> jsstring \<Rightarrow> bool" where
  "startsWith s [] = True"
| "startsWith [] (q # qs) = False"
| "startsWith (c # cs) (q # qs) = (c = q \<and> startsWith cs qs)"

fun str_includes :: "jsstring \<Rightarrow> jsstring \<Rightarrow> bool" where
  "str_includes [] q = (q = [])"
| "str_includes (c # cs) q = (startsWith (c # cs) q \<or> str_includes cs q)"

definition endsWith :: "jsstring \<Rightarrow> jsstring \<Rightarrow> bool" where
  "endsWith s q = startsWith (rev s) (rev q)"

text \<open>\<open>xs.join(sep)\<close> on an array of strings.\<close>

fun join :: "jsstring \<Rightarrow> jsstring list \<Rightarrow> jsstring" where
  "join sep [] = []"
| "join sep [x] = x"
| "join sep (x # y # ys) = x @ sep @ join sep (y # ys)"

section \<open>Legacy frontend: parameter collection and validation\<close>

subsection \<open>Collected parameters\<close>

text \<open>
  \<open>collectParameters\<close> returns an object from parameter names to values. A value is the
  text of a control, or, for the control named \<open>tags\<close>, the result of \<open>JSON.parse\<close> or
  the empty object literal. \<open>JSON.parse\<close> is the host's parser: it is a parameter of the
  model, returning \<open>None\<close> where it throws a SyntaxError, and \<open>'j\<close> is the type of the
  values it yields.
\<close>

datatype 'j pvalue = PStr jsstring | PEmptyObject | PParsed 'j

type_synonym 'j parameters = "jsstring \<rightharpoonup> 'j pvalue"

text \<open>\<open>v || ''\<close> on a property that may be absent: the empty string is the only falsy value
  a collected parameter can hold.\<close>

fun or_empty :: "'j pvalue option \<Rightarrow> 'j pvalue" where
  "or_empty None = PStr []"
| "or_empty (Some (PStr s)) = PStr s"
| "or_empty (Some v) = v"

text \<open>\<open>v.trim()\<close>: only strings have the method; on an object the call raises a TypeError.\<close>

fun trim_call :: "'j pvalue \<Rightarrow> js_error + jsstring" where
  "trim_call (PStr s) = Inr (trim s)"
| "trim_call v = Inl TypeError"

subsection \<open>The resource-group name pattern\<close>

text \<open>The character class \<open>[a-zA-Z0-9._-]\<close>.\<close>

definition rgNameClass :: "jschar \<Rightarrow> bool" where
  "rgNameClass c \<longleftrightarrow>
     (ch CHR ''a'' \<le> c \<and> c \<le> ch CHR ''z'') \<or> (ch CHR ''A'' \<le> c \<and> c \<le> ch CHR ''Z'') \<or>
     (ch CHR ''0'' \<le> c \<and> c \<le> ch CHR ''9'') \<or> c = ch CHR ''.'' \<or> c = ch CHR ''_'' \<or>
     c = ch CHR ''-''"

text \<open>
  \<open>/^[a-zA-Z0-9._-]+$/.test(s)\<close>: anchored at the start, one or more characters of the
  class, then the end of the input (no \<open>m\<close> flag, so \<open>$\<close> is the end of the string).
\<close>

fun rgNamePattern_test :: "jsstring \<Rightarrow> bool" where
  "rgNamePattern_test [] = False"
| "rgNamePattern_test [c] = rgNameClass c"
| "rgNamePattern_test (c # d # ds) = (rgNameClass c \<and> rgNamePattern_test (d # ds))"

subsection \<open>validateDeploymentParameters\<close>

definition msg_select_template :: jsstring where
  "msg_select_template = js ''Please select a template first''"

definition msg_rg_required :: jsstring where
  "msg_rg_required = js ''Resource Group Name is required''"

definition msg_location_required :: jsstring where
  "msg_location_required = js ''Location is required''"

definition msg_rg_charset :: jsstring where
  "msg_rg_charset =
     js ''Resource Group Name can only contain letters, numbers, periods, underscores, and hyphens''"

definition msg_rg_too_long :: jsstring where
  "msg_rg_too_long = js ''Resource Group Name must be 90 characters or less''"

text \<open>The global \<open>selectedTemplate\<close> is \<open>null\<close> or a string; \<open>!selectedTemplate\<close> holds
  for \<open>null\<close> and for the empty string.\<close>

fun falsy :: "jsstring option \<Rightarrow> bool" where
  "falsy None = True"
| "falsy (Some s) = (s = [])"

definition validateDeploymentParameters ::
  "jsstring option \<Rightarrow> 'j parameters \<Rightarrow> js_error + jsstring list" where
  "validateDeploymentParameters selectedTemplate parameters =
     (let resourceGroupName = or_empty (parameters (js ''resourceGroupName'')) in
      case trim_call resourceGroupName of
        Inl e \<Rightarrow> Inl e
      | Inr rg \<Rightarrow>
          (let location = or_empty (parameters (js ''location'')) in
           case trim_call location of
             Inl e \<Rightarrow> Inl e
           | Inr loc \<Rightarrow>
               Inr ((if falsy selectedTemplate then [msg_select_template] else []) @
                    (if rg = [] then [msg_rg_required] else []) @
                    (if loc = [] then [msg_location_required] else []) @
                    (if rg \<noteq> [] then
                       (if \<not> rgNamePattern_test rg then [msg_rg_charset] else []) @
                       (if length rg > 90 then [msg_rg_too_long] else [])
                     else []))))"

text \<open>\<open>highlightValidationErrors\<close> recognises an error about the resource group by
  \<open>error.includes('Resource Group Name')\<close>.\<close>

definition isResourceGroupError :: "jsstring \<Rightarrow> bool" where
  "isResourceGroupError e = str_includes e (js ''Resource Group Name'')"

subsection \<open>validateResourceGroupName\<close>

text \<open>
  A form field: its text, its class list, and the texts of the \<open>.invalid-feedback\<close>
  elements under its parent, in document order.
\<close>

record field =
  field_value :: jsstring
  classList :: "jsstring list"
  invalid_feedback :: "jsstring list"

definition classList_remove :: "jsstring list \<Rightarrow> jsstring list \<Rightarrow> jsstring list" where
  "classList_remove tokens cl = filter (\<lambda>t. t \<notin> set tokens) cl"

definition classList_add :: "jsstring \<Rightarrow> jsstring list \<Rightarrow> jsstring list" where
  "classList_add t cl = (if t \<in> set cl then cl else cl @ [t])"

definition hideFieldError :: "field \<Rightarrow> field" where
  "hideFieldError f =
     (case invalid_feedback f of
        [] \<Rightarrow> f
      | existingError # others \<Rightarrow> f\<lparr>invalid_feedback := others\<rparr>)"

definition showFieldError :: "field \<Rightarrow> jsstring \<Rightarrow> field" where
  "showFieldError f message =
     (let g = hideFieldError f in g\<lparr>invalid_feedback := invalid_feedback g @ [message]\<rparr>)"

definition validateResourceGroupName :: "field \<Rightarrow> field" where
  "validateResourceGroupName field =
     (let v = trim (field_value field);
          field = field\<lparr>classList :=
                    classList_remove [js ''is-invalid'', js ''is-valid''] (classList field)\<rparr>
      in if v = [] then
           showFieldError
             (field\<lparr>classList := classList_add (js ''is-invalid'') (classList field)\<rparr>)
             (js ''Resource Group Name is required'')
         else if \<not> rgNamePattern_test v then
           showFieldError
             (field\<lparr>classList := classList_add (js ''is-invalid'') (classList field)\<rparr>)
             (js ''Only letters, numbers, periods, underscores, and hyphens allowed'')
         else if length v > 90 then
           showFieldError
             (field\<lparr>classList := classList_add (js ''is-invalid'') (classList field)\<rparr>)
             (js ''Must be 90 characters or less'')
         else
           hideFieldError
             (field\<lparr>classList := classList_add (js ''is-valid'') (classList field)\<rparr>))"

text \<open>The field is accepted when it ends up marked \<open>is-valid\<close>.\<close>

definition accepted :: "field \<Rightarrow> bool" where
  "accepted f \<longleftrightarrow> js ''is-valid'' \<in> set (classList f) \<and> js ''is-invalid'' \<notin> set (classList f)"

text \<open>The rule in the specification's words: only characters of \<open>[A-Za-z0-9._-]\<close>, and a
  length between 1 and 90.\<close>

definition rg_name_spec :: "jsstring \<Rightarrow> bool" where
  "rg_name_spec s \<longleftrightarrow>
     1 \<le> length s \<and> length s \<le> 90 \<and>
     set s \<subseteq> {ch CHR ''A'' .. ch CHR ''Z''} \<union> {ch CHR ''a'' .. ch CHR ''z''} \<union>
             {ch CHR ''0'' .. ch CHR ''9''} \<union> {ch CHR ''.'', ch CHR ''_'', ch CHR ''-''}"

subsection \<open>collectParameters\<close>

text \<open>
  What \<open>collectParameters\<close> and \<open>deployTemplate\<close> read of the document: the text of the
  controls \<open>#resourceGroup\<close>, \<open>#location\<close> and \<open>#subscription\<close> (\<open>None\<close> when the element
  is missing), the named and unnamed controls of \<open>#parametersForm\<close> in document order
  (\<open>None\<close> when there is no such form), and whether \<open>#deployButton\<close> exists.
\<close>

record form_input =
  input_name :: jsstring
  input_value :: jsstring

record document =
  resourceGroupField :: "jsstring option"
  locationField :: "jsstring option"
  subscriptionField :: "jsstring option"
  parametersForm :: "form_input list option"
  deployButton :: bool

text \<open>
  \<open>parameters[name] = v\<close> on the plain object \<open>parameters\<close>: an own property is stored,
  except under the name \<open>__proto__\<close>, where the assignment reaches the prototype's setter
  and stores no own property.
\<close>

definition assign :: "'j parameters \<Rightarrow> jsstring \<Rightarrow> 'j pvalue \<Rightarrow> 'j parameters" where
  "assign parameters name v =
     (if name = js ''__proto__'' then parameters else parameters(name \<mapsto> v))"

text \<open>The body of the \<open>forEach\<close> over the controls of the form. Only the control named
  \<open>tags\<close> is parsed; a SyntaxError of \<open>JSON.parse\<close> is caught and gives the empty object.\<close>

definition collect_input ::
  "(jsstring \<Rightarrow> 'j option) \<Rightarrow> 'j parameters \<Rightarrow> form_input \<Rightarrow> 'j parameters" where
  "collect_input JSON_parse parameters input =
     (if input_name input \<noteq> [] then
        (if input_name input = js ''tags'' then
           (let tagsValue = trim (input_value input) in
            if tagsValue \<noteq> [] then
              (if startsWith tagsValue (js ''{'') \<and> endsWith tagsValue (js ''}'') then
                 (case JSON_parse tagsValue of
                    Some v \<Rightarrow> assign parameters (input_name input) (PParsed v)
                  | None \<Rightarrow> assign parameters (input_name input) PEmptyObject)
               else assign parameters (input_name input) PEmptyObject)
            else assign parameters (input_name input) PEmptyObject)
         else if input_name input \<in> set [js ''imagePublisher'', js ''imageOffer'', js ''imageSku''] then
           assign parameters (input_name input) (PStr (input_value input))
         else
           assign parameters (input_name input) (PStr (input_value input)))
      else parameters)"

definition collectParameters :: "(jsstring \<Rightarrow> 'j option) \<Rightarrow> document \<Rightarrow> 'j parameters" where
  "collectParameters JSON_parse doc =
     (let parameters = Map.empty;
          parameters = (case resourceGroupField doc of
                          Some v \<Rightarrow> parameters(js ''resourceGroupName'' \<mapsto> PStr v)
                        | None \<Rightarrow> parameters);
          parameters = (case locationField doc of
                          Some v \<Rightarrow> parameters(js ''location'' \<mapsto> PStr v)
                        | None \<Rightarrow> parameters);
          parameters = (case subscriptionField doc of
                          Some v \<Rightarrow> parameters(js ''subscription'' \<mapsto> PStr v)
                        | None \<Rightarrow> parameters)
      in case parametersForm doc of
           Some inputs \<Rightarrow> foldl (collect_input JSON_parse) parameters inputs
         | None \<Rightarrow> parameters)"

subsection \<open>showTemplateParameters: the control of a parameter\<close>

text \<open>
  A parameter of the template's schema, as far as the choice of control reads it: the
  number of its allowed values (\<open>None\<close> when \<open>allowedValues\<close> is absent) and its type.
\<close>

record template_param =
  allowedValues_length :: "nat option"
  param_type :: "jsstring option"

datatype control = Dropdown | Checkbox | ArrayEditor | ObjectEditor | TextInput

definition control_for :: "jsstring \<Rightarrow> template_param \<Rightarrow> control" where
  "control_for name param =
     (if (case allowedValues_length param of Some n \<Rightarrow> n > 0 | None \<Rightarrow> False) then Dropdown
      else if param_type param = Some (js ''bool'') then Checkbox
      else if param_type param = Some (js ''array'') then ArrayEditor
      else if param_type param = Some (js ''object'') \<or> name = js ''tags'' then ObjectEditor
      else TextInput)"

subsection \<open>deployTemplate\<close>

text \<open>
  \<open>deployTemplate\<close> is modelled by the sequence of its effects. The server is a function
  from the request body to the outcome of \<open>fetch('/deploy')\<close>: the promise of \<open>fetch\<close>
  or of \<open>response.json()\<close> rejects (with the error's message), the response is not ok
  (with its text), or the response is ok with the \<open>deployment_id\<close> of its body
  (\<open>None\<close> when absent). The fields of the request body carry the prefix \<open>dd_\<close>.
  \<open>MonitorDeployment\<close> is the call of \<open>monitorDeployment\<close>, which is not awaited;
  \<open>HideParametersModal\<close> hides the modal if it has an instance; \<open>ScheduleLoadDeployments\<close>
  is the \<open>setTimeout\<close> that reloads the list; \<open>Uncaught\<close> is an exception that leaves
  the function.
\<close>

record 'j deploymentData =
  dd_template_name :: "jsstring option"
  dd_subscription_id :: "'j pvalue"
  dd_resource_group :: "'j pvalue"
  dd_location :: "'j pvalue"
  dd_parameters :: "'j parameters"

datatype deploy_response =
    FetchRejected jsstring
  | ResponseNotOk jsstring
  | ResponseOk "jsstring option"

datatype 'j effect =
    ShowError jsstring
  | HighlightValidationErrors "jsstring list"
  | DisableDeployButton
  | ShowLoading jsstring
  | FetchDeploy "'j deploymentData"
  | HideLoading
  | ShowSuccess jsstring
  | MonitorDeployment jsstring "jsstring option"
  | StartDeploymentPolling
  | HideParametersModal
  | ScheduleLoadDeployments
  | ResetDeployButton
  | Uncaught js_error

fun is_fetch :: "'j effect \<Rightarrow> bool" where
  "is_fetch (FetchDeploy d) = True"
| "is_fetch e = False"

definition bullet :: jsstring where
  "bullet = [0x000A, 0x2022, 0x0020]"

definition deployTemplate ::
  "(jsstring \<Rightarrow> 'j option) \<Rightarrow> jsstring option \<Rightarrow> document \<Rightarrow>
   ('j deploymentData \<Rightarrow> deploy_response) \<Rightarrow> 'j effect list" where
  "deployTemplate JSON_parse selectedTemplate doc server =
     (let params = collectParameters JSON_parse doc in
      case validateDeploymentParameters selectedTemplate params of
        Inl e \<Rightarrow> [Uncaught e]
      | Inr validationErrors \<Rightarrow>
          if length validationErrors > 0 then
            [ShowError (js ''Please fix the following errors:'' @ bullet @
               join bullet validationErrors),
             HighlightValidationErrors validationErrors]
          else if \<not> deployButton doc then [Uncaught TypeError]
          else
            (let subscriptionId = or_empty (params (js ''subscription''));
                 resourceGroupName = or_empty (params (js ''resourceGroupName''));
                 loc = or_empty (params (js ''location''));
                 templateParameters =
                   params |` (- {js ''subscription'', js ''resourceGroupName'', js ''location''});
                 deploymentData =
                   \<lparr>dd_template_name = selectedTemplate, dd_subscription_id = subscriptionId,
                    dd_resource_group = resourceGroupName, dd_location = loc,
                    dd_parameters = templateParameters\<rparr>
             in [DisableDeployButton,
                 ShowLoading (js ''Deploying template... This may take several minutes.''),
                 FetchDeploy deploymentData] @
                (case server deploymentData of
                   FetchRejected message \<Rightarrow>
                     [HideLoading, ShowError (js ''Deployment failed: '' @ message)]
                 | ResponseNotOk errorText \<Rightarrow>
                     [HideLoading,
                      ShowError (js ''Deployment failed: '' @ js ''Deployment failed: '' @ errorText)]
                 | ResponseOk deployment_id \<Rightarrow>
                     [HideLoading,
                      ShowSuccess
                        (js ''Deployment initiated successfully! Monitoring deployment progress...'')] @
                     (case deployment_id of
                        None \<Rightarrow> []
                      | Some i \<Rightarrow> if i = [] then [] else [MonitorDeployment i selectedTemplate]) @
                     [StartDeploymentPolling, HideParametersModal, ScheduleLoadDeployments]) @
                [ResetDeployButton]))"

subsection \<open>monitorDeployment\<close>

text \<open>
  \<open>monitorDeployment\<close> makes one status request at once and, unless its answer says stop,
  sets an interval whose every tick makes another request without waiting for the earlier
  ones. The requests are numbered from 0 in the order they are made, and the status
  endpoint answers request \<open>n\<close> with \<open>endpoint n\<close>: the request or the reading of its body
  fails, the response is not ok, or it is ok with the \<open>provisioningState\<close> of its body
  (\<open>None\<close> when the body has none). When the answers arrive is not up to the code: a run
  is driven by a schedule, the sequence of the ticks of the interval and of the arrivals
  of answers. A request that hangs is one whose answer never occurs in the schedule.
\<close>

datatype status_response =
    StatusFailed
  | StatusNotOk
  | StatusOk "jsstring option"

datatype notice = SuccessNotice | ErrorNotice | TimeoutWarning

datatype interval_state = NotSet | Active | Cleared

datatype event = Tick | Answer nat

text \<open>What a run of \<open>monitorDeployment\<close> has done so far: the counter \<open>attempts\<close> of the
  source, the number of status requests made, the requests still without an answer, the
  state of the interval, the notices shown in order, and the number of calls of
  \<open>loadDeployments\<close>.\<close>

record monitor =
  attempts :: nat
  checks :: nat
  in_flight :: "nat list"
  interval :: interval_state
  notices :: "notice list"
  reloads :: nat

definition maxAttempts :: nat where
  "maxAttempts = 20"

text \<open>A call of \<open>checkStatus\<close> starts with its \<open>fetch\<close>: one more request is in flight.\<close>

definition startCheck :: "monitor \<Rightarrow> monitor" where
  "startCheck m = m\<lparr>checks := checks m + 1, in_flight := in_flight m @ [checks m]\<rparr>"

text \<open>The rest of \<open>checkStatus\<close>, run when request \<open>i\<close> has its answer; the boolean is the
  value it returns (stop monitoring).\<close>

definition checkStatus ::
  "(nat \<Rightarrow> status_response) \<Rightarrow> nat \<Rightarrow> monitor \<Rightarrow> bool \<times> monitor" where
  "checkStatus endpoint i m =
     (let response = endpoint i;
          m = m\<lparr>in_flight := filter (\<lambda>j. j \<noteq> i) (in_flight m)\<rparr>
      in if response = StatusOk (Some (js ''Succeeded'')) then
           (True, m\<lparr>notices := notices m @ [SuccessNotice], reloads := reloads m + 1\<rparr>)
         else if response = StatusOk (Some (js ''Failed'')) then
           (True, m\<lparr>notices := notices m @ [ErrorNotice], reloads := reloads m + 1\<rparr>)
         else
           (let m = m\<lparr>attempts := attempts m + 1\<rparr>
            in if attempts m \<ge> maxAttempts then
                 (True, m\<lparr>notices := notices m @ [TimeoutWarning]\<rparr>)
               else (False, m)))"

text \<open>
  One event. A tick of a set interval calls \<open>checkStatus\<close>, whose request goes out. The
  answer to request 0, the initial check, either ends \<open>monitorDeployment\<close> or is followed
  by \<open>setInterval\<close>; the answer to a later request, made by a tick, is followed by
  \<open>clearInterval\<close> when the check says stop. A tick of an interval that is not set, and an
  answer to a request that is not in flight, do not occur and change nothing.
\<close>

definition step :: "(nat \<Rightarrow> status_response) \<Rightarrow> monitor \<Rightarrow> event \<Rightarrow> monitor" where
  "step endpoint m ev =
     (case ev of
        Tick \<Rightarrow> if interval m = Active then startCheck m else m
      | Answer i \<Rightarrow>
          if i \<in> set (in_flight m) then
            (let shouldStop = fst (checkStatus endpoint i m);
                 m = snd (checkStatus endpoint i m)
             in if i = 0 then (if shouldStop then m else m\<lparr>interval := Active\<rparr>)
                else (if shouldStop then m\<lparr>interval := Cleared\<rparr> else m))
          else m)"

definition monitorDeployment :: "(nat \<Rightarrow> status_response) \<Rightarrow> event list \<Rightarrow> monitor" where
  "monitorDeployment endpoint schedule =
     (let m0 = \<lparr>attempts = 0, checks = 0, in_flight = [], interval = NotSet, notices = [],
                reloads = 0\<rparr>
      in foldl (step endpoint) (startCheck m0) schedule)"

text \<open>A check reports a terminal provisioning state when the response is ok and the
  state is \<open>Succeeded\<close> or \<open>Failed\<close>.\<close>

definition terminal :: "status_response \<Rightarrow> bool" where
  "terminal r \<longleftrightarrow> r = StatusOk (Some (js ''Succeeded'')) \<or> r = StatusOk (Some (js ''Failed''))"

text \<open>
  Two schedules. In \<open>answered_at_once n\<close> every request is answered before the next tick:
  the answer to the initial check, then \<open>n\<close> ticks, each followed by the answer to its
  request. In \<open>answered_after_45s\<close> every answer takes 45 seconds, one and a half periods of
  the 30 second interval: the initial check is answered at 0:45 and the interval is set;
  tick \<open>j\<close> makes request \<open>j\<close> at \<open>0:45 + j * 0:30\<close> and its answer arrives
  at \<open>1:30 + j * 0:30\<close>, after tick \<open>j + 1\<close> and before tick \<open>j + 2\<close>. The schedule
  runs until the last request in flight is answered.
\<close>

definition answered_at_once :: "nat \<Rightarrow> event list" where
  "answered_at_once n = Answer 0 # concat (map (\<lambda>j. [Tick, Answer j]) [1..<Suc n])"

definition answered_after_45s :: "event list" where
  "answered_after_45s =
     Answer 0 # Tick # concat (map (\<lambda>j. [Tick, Answer j]) [1..<20]) @ [Answer 20]"

subsection \<open>Cascading dropdowns\<close>

record app_service_plan =
  os :: jsstring
  tier :: jsstring
  sku :: jsstring

definition APP_SERVICE_PLANS :: "app_service_plan list" where
  "APP_SERVICE_PLANS =
     [\<lparr>os = js ''Windows'', tier = js ''Free'', sku = js ''F1''\<rparr>,
      \<lparr>os = js ''Windows'', tier = js ''Basic'', sku = js ''B1''\<rparr>,
      \<lparr>os = js ''Windows'', tier = js ''Standard'', sku = js ''S1''\<rparr>,
      \<lparr>os = js ''Windows'', tier = js ''PremiumV2'', sku = js ''P1v2''\<rparr>,
      \<lparr>os = js ''Linux'', tier = js ''Basic'', sku = js ''B1''\<rparr>,
      \<lparr>os = js ''Linux'', tier = js ''Standard'', sku = js ''S1''\<rparr>,
      \<lparr>os = js ''Linux'', tier = js ''PremiumV3'', sku = js ''P1v3''\<rparr>]"

record sql_edition =
  edition :: jsstring
  compute :: jsstring
  version :: jsstring

definition SQL_EDITIONS :: "sql_edition list" where
  "SQL_EDITIONS =
     [\<lparr>edition = js ''Basic'', compute = js ''5 DTUs'', version = js ''12.0''\<rparr>,
      \<lparr>edition = js ''Standard'', compute = js ''S0'', version = js ''12.0''\<rparr>,
      \<lparr>edition = js ''Standard'', compute = js ''S1'', version = js ''12.0''\<rparr>,
      \<lparr>edition = js ''Premium'', compute = js ''P1'', version = js ''12.0''\<rparr>,
      \<lparr>edition = js ''Premium'', compute = js ''P2'', version = js ''12.0''\<rparr>,
      \<lparr>edition = js ''GeneralPurpose'', compute = js ''Gen5'', version = js ''12.0''\<rparr>,
      \<lparr>edition = js ''BusinessCritical'', compute = js ''Gen5'', version = js ''12.0''\<rparr>]"

record storage_account =
  kind :: jsstring
  replication :: jsstring
  performance :: jsstring

definition STORAGE_ACCOUNTS :: "storage_account list" where
  "STORAGE_ACCOUNTS =
     [\<lparr>kind = js ''StorageV2'', replication = js ''LRS'', performance = js ''Standard''\<rparr>,
      \<lparr>kind = js ''StorageV2'', replication = js ''GRS'', performance = js ''Standard''\<rparr>,
      \<lparr>kind = js ''StorageV2'', replication = js ''ZRS'', performance = js ''Standard''\<rparr>,
      \<lparr>kind = js ''StorageV2'', replication = js ''LRS'', performance = js ''Premium''\<rparr>,
      \<lparr>kind = js ''BlobStorage'', replication = js ''LRS'', performance = js ''Standard''\<rparr>,
      \<lparr>kind = js ''FileStorage'', replication = js ''LRS'', performance = js ''Premium''\<rparr>]"

text \<open>\<open>[...new Set(xs)]\<close>: the distinct elements of \<open>xs\<close> in the order of their first
  occurrence.\<close>

fun set_insert_all :: "'a list \<Rightarrow> 'a list \<Rightarrow> 'a list" where
  "set_insert_all acc [] = acc"
| "set_insert_all acc (x # xs) = set_insert_all (if x \<in> set acc then acc else acc @ [x]) xs"

definition unique :: "'a list \<Rightarrow> 'a list" where
  "unique xs = set_insert_all [] xs"

text \<open>\<open>xs[0]\<close>, which is \<open>undefined\<close> on the empty array.\<close>

fun first_of :: "'a list \<Rightarrow> 'a option" where
  "first_of [] = None"
| "first_of (x # xs) = Some x"

text \<open>
  A dropdown (a \<open>select\<close> element with one selection): the values of its options and the
  index of the selected one. Its \<open>value\<close> is the value of the selected option, or the
  empty string when none is selected. Assigning \<open>innerHTML\<close> a run of
  \<open><option value="v">v</option>\<close> replaces the options, and the first one becomes
  selected (none when the run is empty); the values of the three tables hold no markup
  character, so each gives one option with that value. Assigning \<open>value\<close> selects the
  first option with that value, or none when no option has it; \<open>undefined\<close> is assigned
  as the string \<open>"undefined"\<close>.
\<close>

record select =
  options :: "jsstring list"
  selectedIndex :: "nat option"

definition select_value :: "select \<Rightarrow> jsstring" where
  "select_value s =
     (case selectedIndex s of
        None \<Rightarrow> []
      | Some i \<Rightarrow> if i < length (options s) then options s ! i else [])"

definition set_innerHTML :: "jsstring list \<Rightarrow> select \<Rightarrow> select" where
  "set_innerHTML vs s = s\<lparr>options := vs, selectedIndex := (if vs = [] then None else Some 0)\<rparr>"

fun index_of :: "'a \<Rightarrow> 'a list \<Rightarrow> nat option" where
  "index_of v [] = None"
| "index_of v (x # xs) = (if x = v then Some 0 else map_option Suc (index_of v xs))"

definition set_value :: "jsstring option \<Rightarrow> select \<Rightarrow> select" where
  "set_value v s =
     s\<lparr>selectedIndex :=
          index_of (case v of None \<Rightarrow> js ''undefined'' | Some x \<Rightarrow> x) (options s)\<rparr>"

text \<open>\<open>select.value || xs[0]\<close>.\<close>

definition value_or_first :: "select \<Rightarrow> jsstring list \<Rightarrow> jsstring option" where
  "value_or_first s xs = (if select_value s \<noteq> [] then Some (select_value s) else first_of xs)"

text \<open>
  The three elements a cascade reads: the value of the upstream control (\<open>param_os\<close>,
  \<open>param_edition\<close>, \<open>param_kind\<close>), the dropdown of the next field (\<open>param_tier\<close>,
  \<open>param_compute\<close>, \<open>param_replication\<close>) and the dropdown of the last field
  (\<open>param_sku\<close>, \<open>param_version\<close>, \<open>param_performance\<close>); \<open>None\<close> for an element the
  document does not have.
\<close>

record cascade =
  upstream :: "jsstring option"
  middle :: "select option"
  downstream :: "select option"

definition updateAppServicePlanDropdowns :: "cascade \<Rightarrow> cascade" where
  "updateAppServicePlanDropdowns doc =
     (case (upstream doc, middle doc, downstream doc) of
        (Some selectedOs, Some tierSelect, Some skuSelect) \<Rightarrow>
          (let filteredByOs = filter (\<lambda>x. os x = selectedOs) APP_SERVICE_PLANS;
               tiers = unique (map tier filteredByOs);
               tierSelect = set_innerHTML tiers tierSelect;
               selectedTier = value_or_first tierSelect tiers;
               filteredByTier = filter (\<lambda>x. Some (tier x) = selectedTier) filteredByOs;
               skus = unique (map sku filteredByTier);
               skuSelect = set_innerHTML skus skuSelect;
               tierSelect = set_value selectedTier tierSelect;
               skuSelect = set_value (first_of skus) skuSelect
           in doc\<lparr>middle := Some tierSelect, downstream := Some skuSelect\<rparr>)
      | _ \<Rightarrow> doc)"

definition updateSqlDropdowns :: "cascade \<Rightarrow> cascade" where
  "updateSqlDropdowns doc =
     (case (upstream doc, middle doc, downstream doc) of
        (Some selectedEdition, Some computeSelect, Some versionSelect) \<Rightarrow>
          (let filteredByEdition = filter (\<lambda>x. edition x = selectedEdition) SQL_EDITIONS;
               computes = unique (map compute filteredByEdition);
               computeSelect = set_innerHTML computes computeSelect;
               selectedCompute = value_or_first computeSelect computes;
               filteredByCompute =
                 filter (\<lambda>x. Some (compute x) = selectedCompute) filteredByEdition;
               versions = unique (map version filteredByCompute);
               versionSelect = set_innerHTML versions versionSelect;
               computeSelect = set_value selectedCompute computeSelect;
               versionSelect = set_value (first_of versions) versionSelect
           in doc\<lparr>middle := Some computeSelect, downstream := Some versionSelect\<rparr>)
      | _ \<Rightarrow> doc)"

definition updateStorageDropdowns :: "cascade \<Rightarrow> cascade" where
  "updateStorageDropdowns doc =
     (case (upstream doc, middle doc, downstream doc) of
        (Some selectedKind, Some replicationSelect, Some performanceSelect) \<Rightarrow>
          (let filteredByKind = filter (\<lambda>x. kind x = selectedKind) STORAGE_ACCOUNTS;
               replications = unique (map replication filteredByKind);
               replicationSelect = set_innerHTML replications replicationSelect;
               selectedReplication = value_or_first replicationSelect replications;
               filteredByReplication =
                 filter (\<lambda>x. Some (replication x) = selectedReplication) filteredByKind;
               performances = unique (map performance filteredByReplication);
               performanceSelect = set_innerHTML performances performanceSelect;
               replicationSelect = set_value selectedReplication replicationSelect;
               performanceSelect = set_value (first_of performances) performanceSelect
           in doc\<lparr>middle := Some replicationSelect, downstream := Some performanceSelect\<rparr>)
      | _ \<Rightarrow> doc)"

text \<open>
  The three functions are one computation over a table and its three columns; the
  properties are proved for this common shape.
\<close>

definition updateDropdowns ::
  "('r \<Rightarrow> jsstring) \<Rightarrow> ('r \<Rightarrow> jsstring) \<Rightarrow> ('r \<Rightarrow> jsstring) \<Rightarrow> 'r list \<Rightarrow> cascade \<Rightarrow> cascade" where
  "updateDropdowns col1 col2 col3 table doc =
     (case (upstream doc, middle doc, downstream doc) of
        (Some selected1, Some select2, Some select3) \<Rightarrow>
          (let filtered1 = filter (\<lambda>x. col1 x = selected1) table;
               values2 = unique (map col2 filtered1);
               select2 = set_innerHTML values2 select2;
               selected2 = value_or_first select2 values2;
               filtered2 = filter (\<lambda>x. Some (col2 x) = selected2) filtered1;
               values3 = unique (map col3 filtered2);
               select3 = set_innerHTML values3 select3;
               select2 = set_value selected2 select2;
               select3 = set_value (first_of values3) select3
           in doc\<lparr>middle := Some select2, downstream := Some select3\<rparr>)
      | _ \<Rightarrow> doc)"

text \<open>
  The invariant of a cascade over a table, for a document after the update: the options
  of each child are the values the table allows under the selection above it, each
  child's value is one of its options, and the value of the last field is its first
  option.
\<close>

definition cascade_ok ::
  "('r \<Rightarrow> jsstring) \<Rightarrow> ('r \<Rightarrow> jsstring) \<Rightarrow> ('r \<Rightarrow> jsstring) \<Rightarrow> 'r list \<Rightarrow> cascade \<Rightarrow> bool" where
  "cascade_ok col1 col2 col3 table doc =
     (case (upstream doc, middle doc, downstream doc) of
        (Some selected1, Some select2, Some select3) \<Rightarrow>
          set (options select2) = col2 ` {x \<in> set table. col1 x = selected1} \<and>
          select_value select2 \<in> set (options select2) \<and>
          set (options select3) =
            col3 ` {x \<in> set table. col1 x = selected1 \<and> col2 x = select_value select2} \<and>
          select_value select3 \<in> set (options select3) \<and>
          first_of (options select3) = Some (select_value select3)
      | _ \<Rightarrow> False)"

section \<open>React frontend\<close>

subsection \<open>Property lookup on an object literal\<close>

text \<open>
  \<open>obj[key]\<close> on an object literal finds an own property, else a member inherited from
  \<open>Object.prototype\<close>, else \<open>undefined\<close>. The inherited members are functions, and
  \<open>__proto__\<close> is the prototype object: all of them are truthy and none is a string or an
  array.
\<close>

definition objectPrototypeKeys :: "jsstring list" where
  "objectPrototypeKeys =
     [js ''constructor'', js ''hasOwnProperty'', js ''isPrototypeOf'',
      js ''propertyIsEnumerable'', js ''toLocaleString'', js ''toString'', js ''valueOf'',
      js ''__proto__'', js ''__defineGetter__'', js ''__defineSetter__'',
      js ''__lookupGetter__'', js ''__lookupSetter__'']"

datatype 'v property = Own 'v | Inherited jsstring | Absent

definition get_property :: "(jsstring \<times> 'v) list \<Rightarrow> jsstring \<Rightarrow> 'v property" where
  "get_property obj key =
     (case map_of obj key of
        Some v \<Rightarrow> Own v
      | None \<Rightarrow> if key \<in> set objectPrototypeKeys then Inherited key else Absent)"

subsection \<open>UserManagement: getRolePermissions\<close>

definition permissions :: "(jsstring \<times> jsstring list) list" where
  "permissions =
     [(js ''admin'', [js ''read'', js ''write'', js ''delete'', js ''manage_users'']),
      (js ''user'', [js ''read'', js ''write'']),
      (js ''viewer'', [js ''read''])]"

text \<open>The result of \<open>permissions[role] || []\<close>: an array of permission names, or a member
  of \<open>Object.prototype\<close> (which is truthy, so the fallback is not taken).\<close>

datatype role_permissions = PermissionList "jsstring list" | PrototypeMember jsstring

definition getRolePermissions :: "jsstring \<Rightarrow> role_permissions" where
  "getRolePermissions role =
     (case get_property permissions role of
        Own ps \<Rightarrow> PermissionList ps
      | Inherited k \<Rightarrow> PrototypeMember k
      | Absent \<Rightarrow> PermissionList [])"

subsection \<open>Deploy: handleDeploy\<close>

text \<open>
  The selected template, the form's values and the stored settings. The destructuring of
  \<open>formData\<close> names seven core fields; the rest are the template's parameters. A core field
  is a string or absent. The stored settings are the text under the key
  \<open>cloudCredentials\<close> of the session storage and of the local storage; parsed, they hold
  for each provider a mode and a credential, each a string or absent. \<open>JSON.parse\<close> is a
  parameter of the model; it gives \<open>None\<close> where the \<open>try\<close> block around it throws.
\<close>

record template =
  template_name :: jsstring
  cloud_provider :: "jsstring option"

record 'p formData =
  fd_subscription_id :: "jsstring option"
  fd_project_id :: "jsstring option"
  fd_resource_group :: "jsstring option"
  fd_resource_group_name :: "jsstring option"
  fd_location :: "jsstring option"
  fd_region :: "jsstring option"
  fd_zone :: "jsstring option"
  fd_templateParameters :: 'p

record web_storage =
  session_cloudCredentials :: "jsstring option"
  local_cloudCredentials :: "jsstring option"

record azure_settings =
  azure_mode :: "jsstring option"
  subscriptionId :: "jsstring option"

record gcp_settings =
  gcp_mode :: "jsstring option"
  projectId :: "jsstring option"

record cloud_settings =
  azure :: "azure_settings option"
  gcp :: "gcp_settings option"

text \<open>The value of \<open>providerType\<close>: a string, \<open>undefined\<close>, or a member inherited by the
  object literal \<open>providerTypeMap\<close>.\<close>

datatype provider_type =
    ProviderString jsstring
  | ProviderUndefined
  | ProviderInherited jsstring

text \<open>The request body; \<open>payload_subscription_id\<close> is \<open>None\<close> when the payload has no
  \<open>subscription_id\<close> key.\<close>

record 'p payload =
  payload_provider_type :: provider_type
  payload_template_name :: jsstring
  payload_subscription_id :: "jsstring option"
  payload_resource_group :: jsstring
  payload_location :: jsstring
  payload_parameters :: 'p

definition providerTypeMap :: "(jsstring \<times> jsstring) list" where
  "providerTypeMap = [(js ''azure'', js ''terraform-azure''), (js ''gcp'', js ''terraform-gcp'')]"

text \<open>\<open>providerTypeMap[selectedTemplate.cloud_provider] || selectedTemplate.cloud_provider\<close>;
  an absent provider is looked up under the key \<open>"undefined"\<close>.\<close>

definition providerTypeOf :: "template \<Rightarrow> provider_type" where
  "providerTypeOf selectedTemplate =
     (case cloud_provider selectedTemplate of
        None \<Rightarrow>
          (case get_property providerTypeMap (js ''undefined'') of
             Own v \<Rightarrow> if v \<noteq> [] then ProviderString v else ProviderUndefined
           | Inherited k \<Rightarrow> ProviderInherited k
           | Absent \<Rightarrow> ProviderUndefined)
      | Some cp \<Rightarrow>
          (case get_property providerTypeMap cp of
             Own v \<Rightarrow> if v \<noteq> [] then ProviderString v else ProviderString cp
           | Inherited k \<Rightarrow> ProviderInherited k
           | Absent \<Rightarrow> ProviderString cp))"

text \<open>\<open>providerType.includes(q)\<close>: only a string has the method.\<close>

fun includes_call :: "provider_type \<Rightarrow> jsstring \<Rightarrow> js_error + bool" where
  "includes_call (ProviderString s) q = Inr (str_includes s q)"
| "includes_call pt q = Inl TypeError"

text \<open>\<open>a || b || ... || ''\<close> over strings that may be absent.\<close>

fun first_truthy :: "jsstring option list \<Rightarrow> jsstring" where
  "first_truthy [] = []"
| "first_truthy (None # xs) = first_truthy xs"
| "first_truthy (Some s # xs) = (if s \<noteq> [] then s else first_truthy xs)"

definition savedSettingsOf :: "web_storage \<Rightarrow> jsstring option" where
  "savedSettingsOf storage =
     (if falsy (session_cloudCredentials storage) then local_cloudCredentials storage
      else session_cloudCredentials storage)"

text \<open>The credential chosen inside the \<open>try\<close> block; any exception there is caught and
  leaves \<open>customSubscriptionId\<close> at \<open>null\<close>.\<close>

definition customSubscriptionIdOf ::
  "(jsstring \<Rightarrow> cloud_settings option) \<Rightarrow> jsstring option \<Rightarrow> provider_type \<Rightarrow> jsstring option" where
  "customSubscriptionIdOf JSON_parse savedSettings providerType =
     (if falsy savedSettings then None
      else
        (case JSON_parse (case savedSettings of Some s \<Rightarrow> s | None \<Rightarrow> []) of
           None \<Rightarrow> None
         | Some settings \<Rightarrow>
             (case includes_call providerType (js ''azure'') of
                Inl e \<Rightarrow> None
              | Inr isAzure \<Rightarrow>
                  if isAzure \<and>
                     (case azure settings of
                        Some a \<Rightarrow> azure_mode a = Some (js ''custom'') | None \<Rightarrow> False)
                  then (case azure settings of Some a \<Rightarrow> subscriptionId a | None \<Rightarrow> None)
                  else
                    (case includes_call providerType (js ''gcp'') of
                       Inl e \<Rightarrow> None
                     | Inr isGcp \<Rightarrow>
                         if isGcp \<and>
                            (case gcp settings of
                               Some g \<Rightarrow> gcp_mode g = Some (js ''custom'') | None \<Rightarrow> False)
                         then (case gcp settings of Some g \<Rightarrow> projectId g | None \<Rightarrow> None)
                         else None))))"

text \<open>
  \<open>handleDeploy\<close> up to the request: \<open>Inr\<close> the payload given to \<open>axios.post\<close>, or
  \<open>Inl\<close> the exception that the outer \<open>catch\<close> receives before any request is made.
\<close>

definition handleDeploy ::
  "(jsstring \<Rightarrow> cloud_settings option) \<Rightarrow> web_storage \<Rightarrow> template \<Rightarrow> 'p formData \<Rightarrow>
   js_error + 'p payload" where
  "handleDeploy JSON_parse storage selectedTemplate formData =
     (let providerType = providerTypeOf selectedTemplate;
          coreResourceGroup =
            first_truthy [fd_resource_group formData, fd_resource_group_name formData];
          coreLocation = first_truthy [fd_location formData, fd_region formData, fd_zone formData]
      in case (if coreResourceGroup = [] then includes_call providerType (js ''gcp'')
               else Inr False) of
           Inl e \<Rightarrow> Inl e
         | Inr useDefault \<Rightarrow>
             (let coreResourceGroup = (if useDefault then js ''default'' else coreResourceGroup);
                  savedSettings = savedSettingsOf storage;
                  customSubscriptionId =
                    customSubscriptionIdOf JSON_parse savedSettings providerType
              in Inr \<lparr>payload_provider_type = providerType,
                      payload_template_name = template_name selectedTemplate,
                      payload_subscription_id =
                        (if falsy customSubscriptionId then None else customSubscriptionId),
                      payload_resource_group = coreResourceGroup,
                      payload_location = coreLocation,
                      payload_parameters = fd_templateParameters formData\<rparr>))"

text \<open>
  The words of the specification about credentials. The provider type names a provider
  when it is a string that includes the provider's name. The stored settings are what
  \<open>JSON.parse\<close> makes of the stored text, if there is a text and it parses. They hold a
  custom credential \<open>c\<close> for the provider when the provider's mode is \<open>custom\<close> and its
  identifier (\<open>subscriptionId\<close> for azure, \<open>projectId\<close> for gcp) is the non-empty string
  \<open>c\<close>.
\<close>

definition provider_includes :: "provider_type \<Rightarrow> jsstring \<Rightarrow> bool" where
  "provider_includes pt name =
     (case pt of ProviderString p \<Rightarrow> str_includes p name | _ \<Rightarrow> False)"

definition stored_settings ::
  "(jsstring \<Rightarrow> cloud_settings option) \<Rightarrow> web_storage \<Rightarrow> cloud_settings option" where
  "stored_settings JSON_parse storage =
     (case savedSettingsOf storage of
        None \<Rightarrow> None
      | Some text \<Rightarrow> if text = [] then None else JSON_parse text)"

definition has_custom_credential :: "cloud_settings \<Rightarrow> provider_type \<Rightarrow> jsstring \<Rightarrow> bool" where
  "has_custom_credential settings pt c \<longleftrightarrow>
     c \<noteq> [] \<and>
     ((provider_includes pt (js ''azure'') \<and>
       (case azure settings of
          Some a \<Rightarrow> azure_mode a = Some (js ''custom'') \<and> subscriptionId a = Some c
        | None \<Rightarrow> False)) \<or>
      (provider_includes pt (js ''gcp'') \<and>
       (case gcp settings of
          Some g \<Rightarrow> gcp_mode g = Some (js ''custom'') \<and> projectId g = Some c
        | None \<Rightarrow> False)))"

subsection \<open>DeploymentLogViewer\<close>

text \<open>
  A field of the data of a stream event after \<open>JSON.parse\<close>, as the handler and the
  filter read it: a string, \<open>undefined\<close> (the field is absent), or another value, which is
  falsy (\<open>null\<close>, \<open>false\<close>, \<open>0\<close>) or truthy (\<open>true\<close>, another number, an array, an
  object); \<open>'x\<close> is the type of these other values.
\<close>

datatype 'x jsval = JString jsstring | JUndefined | JFalsy 'x | JTruthy 'x

text \<open>\<open>x || d\<close> for a string literal \<open>d\<close>.\<close>

fun js_or :: "'x jsval \<Rightarrow> jsstring \<Rightarrow> 'x jsval" where
  "js_or (JString s) d = (if s \<noteq> [] then JString s else JString d)"
| "js_or JUndefined d = JString d"
| "js_or (JFalsy x) d = JString d"
| "js_or (JTruthy x) d = JTruthy x"

text \<open>\<open>x.toLowerCase()\<close> and \<open>x.toUpperCase()\<close>: only a string has these methods; on any
  other value the call raises a TypeError. The case mappings themselves are the host's
  and are parameters of the model.\<close>

fun case_call :: "(jsstring \<Rightarrow> jsstring) \<Rightarrow> 'x jsval \<Rightarrow> js_error + jsstring" where
  "case_call mapping (JString s) = Inr (mapping s)"
| "case_call mapping v = Inl TypeError"

fun is_string :: "'x jsval \<Rightarrow> bool" where
  "is_string (JString s) = True"
| "is_string v = False"

text \<open>
  The data of a stream event, and an entry of the log list. The handler copies the
  timestamp, the message and the details as they are, so their types are left open; the
  type of an event is a string or absent.
\<close>

record ('t, 'x, 'm, 'd) event_data =
  data_type :: "jsstring option"
  data_timestamp :: 't
  data_level :: "'x jsval"
  data_phase :: "'x jsval"
  data_message :: 'm
  data_details :: 'd

record ('t, 'x, 'm, 'd) log_entry =
  log_timestamp :: 't
  log_level :: "'x jsval"
  log_phase :: "'x jsval"
  log_message :: 'm
  log_details :: 'd

record ('t, 'x, 'm, 'd) viewer =
  logs :: "('t, 'x, 'm, 'd) log_entry list"
  filteredLogs :: "('t, 'x, 'm, 'd) log_entry list"
  levelFilter :: jsstring
  phaseFilter :: jsstring
  searchQuery :: jsstring
  eventSourceClosed :: bool

definition onmessage ::
  "('t, 'x, 'm, 'd) event_data \<Rightarrow> ('t, 'x, 'm, 'd) viewer \<Rightarrow> ('t, 'x, 'm, 'd) viewer" where
  "onmessage data v =
     (if data_type data = Some (js ''log'') then
        v\<lparr>logs := logs v @
             [\<lparr>log_timestamp = data_timestamp data,
               log_level = js_or (data_level data) (js ''INFO''),
               log_phase = js_or (data_phase data) (js ''unknown''),
               log_message = data_message data,
               log_details = data_details data\<rparr>]\<rparr>
      else if data_type data = Some (js ''complete'') \<or> data_type data = Some (js ''done'') then
        v\<lparr>eventSourceClosed := True\<rparr>
      else v)"

text \<open>
  \<open>xs.filter(p)\<close> with a callback that may throw: the exception of the first element on
  which the callback throws leaves \<open>filter\<close>, and with it the effect.
\<close>

fun filter_throwing :: "('a \<Rightarrow> js_error + bool) \<Rightarrow> 'a list \<Rightarrow> js_error + 'a list" where
  "filter_throwing p [] = Inr []"
| "filter_throwing p (x # xs) =
     (case p x of
        Inl e \<Rightarrow> Inl e
      | Inr b \<Rightarrow>
          (case filter_throwing p xs of
             Inl e \<Rightarrow> Inl e
           | Inr ys \<Rightarrow> Inr (if b then x # ys else ys)))"

text \<open>
  The three steps of the filter effect, on entries whose message is any value of an
  event's field. The level step compares with \<open>===\<close> and cannot throw; the phase step calls
  \<open>log.phase.toUpperCase()\<close>; the search step calls \<open>toLowerCase()\<close> on the message, then
  (if the message does not match) on the level, then on the phase.
\<close>

definition filterByLevel ::
  "jsstring \<Rightarrow> ('t, 'x, 'x jsval, 'd) log_entry list \<Rightarrow>
   js_error + ('t, 'x, 'x jsval, 'd) log_entry list" where
  "filterByLevel level_filter filtered =
     (if level_filter \<noteq> js ''ALL'' then
        Inr (filter (\<lambda>log. log_level log = JString level_filter) filtered)
      else Inr filtered)"

definition filterByPhase ::
  "(jsstring \<Rightarrow> jsstring) \<Rightarrow> jsstring \<Rightarrow> ('t, 'x, 'x jsval, 'd) log_entry list \<Rightarrow>
   js_error + ('t, 'x, 'x jsval, 'd) log_entry list" where
  "filterByPhase toUpperCase phase_filter filtered =
     (if phase_filter \<noteq> js ''ALL'' then
        filter_throwing
          (\<lambda>log. case case_call toUpperCase (log_phase log) of
                    Inl e \<Rightarrow> Inl e
                  | Inr p \<Rightarrow> Inr (p = phase_filter)) filtered
      else Inr filtered)"

definition search_matches ::
  "(jsstring \<Rightarrow> jsstring) \<Rightarrow> jsstring \<Rightarrow> ('t, 'x, 'x jsval, 'd) log_entry \<Rightarrow> js_error + bool" where
  "search_matches toLowerCase query log =
     (case case_call toLowerCase (log_message log) of
        Inl e \<Rightarrow> Inl e
      | Inr m \<Rightarrow>
          if str_includes m query then Inr True
          else
            (case case_call toLowerCase (log_level log) of
               Inl e \<Rightarrow> Inl e
             | Inr l \<Rightarrow>
                 if str_includes l query then Inr True
                 else
                   (case case_call toLowerCase (log_phase log) of
                      Inl e \<Rightarrow> Inl e
                    | Inr p \<Rightarrow> Inr (str_includes p query))))"

definition filterBySearch ::
  "(jsstring \<Rightarrow> jsstring) \<Rightarrow> jsstring \<Rightarrow> ('t, 'x, 'x jsval, 'd) log_entry list \<Rightarrow>
   js_error + ('t, 'x, 'x jsval, 'd) log_entry list" where
  "filterBySearch toLowerCase search_query filtered =
     (if search_query \<noteq> [] then
        (let query = toLowerCase search_query
         in filter_throwing (search_matches toLowerCase query) filtered)
      else Inr filtered)"

text \<open>One step after another: an exception of the first ends the computation.\<close>

definition and_then :: "js_error + 'a \<Rightarrow> ('a \<Rightarrow> js_error + 'b) \<Rightarrow> js_error + 'b" where
  "and_then r f = (case r of Inl e \<Rightarrow> Inl e | Inr x \<Rightarrow> f x)"

text \<open>The filter effect: \<open>Inr\<close> the state after \<open>setFilteredLogs\<close>, or \<open>Inl\<close> the exception
  that leaves the effect before any state is set.\<close>

definition applyFilters ::
  "(jsstring \<Rightarrow> jsstring) \<Rightarrow> (jsstring \<Rightarrow> jsstring) \<Rightarrow>
   ('t, 'x, 'x jsval, 'd) viewer \<Rightarrow> js_error + ('t, 'x, 'x jsval, 'd) viewer" where
  "applyFilters toLowerCase toUpperCase v =
     and_then (filterByLevel (levelFilter v) (logs v)) (\<lambda>filtered.
     and_then (filterByPhase toUpperCase (phaseFilter v) filtered) (\<lambda>filtered.
     and_then (filterBySearch toLowerCase (searchQuery v) filtered) (\<lambda>filtered.
     Inr (v\<lparr>filteredLogs := filtered\<rparr>))))"

text \<open>The entries the stream interface declares: level, phase and message are strings.\<close>

definition string_fields :: "('t, 'x, 'x jsval, 'd) log_entry \<Rightarrow> bool" where
  "string_fields log \<longleftrightarrow>
     is_string (log_level log) \<and> is_string (log_phase log) \<and> is_string (log_message log)"

section \<open>Properties: resource-group name validation\<close>

lemma rgNamePattern_test_iff:
  "rgNamePattern_test s \<longleftrightarrow> s \<noteq> [] \<and> (\<forall>c\<in>set s. rgNameClass c)"
  by (induction s rule: rgNamePattern_test.induct) auto

lemma rgNameClass_iff:
  "rgNameClass c \<longleftrightarrow>
     c \<in> {ch CHR ''A'' .. ch CHR ''Z''} \<union> {ch CHR ''a'' .. ch CHR ''z''} \<union>
             {ch CHR ''0'' .. ch CHR ''9''} \<union> {ch CHR ''.'', ch CHR ''_'', ch CHR ''-''}"
  by (auto simp: rgNameClass_def)

lemma pattern_and_length_iff:
  "v \<noteq> [] \<and> rgNamePattern_test v \<and> \<not> length v > 90 \<longleftrightarrow> rg_name_spec v"
  unfolding rgNamePattern_test_iff rg_name_spec_def
  using rgNameClass_iff by (cases v) auto

lemma valid_neq_invalid: "js ''is-valid'' \<noteq> js ''is-invalid''"
  by (simp add: js_def)

lemma classList_hideFieldError: "classList (hideFieldError f) = classList f"
  by (simp add: hideFieldError_def split: list.splits)

lemma classList_showFieldError: "classList (showFieldError f message) = classList f"
  by (simp add: showFieldError_def Let_def classList_hideFieldError)

lemma accepted_validateResourceGroupName:
  "accepted (validateResourceGroupName f) \<longleftrightarrow> rg_name_spec (trim (field_value f))"
  unfolding pattern_and_length_iff [symmetric]
  using valid_neq_invalid
  by (auto simp: validateResourceGroupName_def accepted_def Let_def classList_showFieldError
      classList_hideFieldError classList_add_def classList_remove_def)

lemma rg_errors:
  "isResourceGroupError msg_rg_required" "isResourceGroupError msg_rg_charset"
  "isResourceGroupError msg_rg_too_long" "\<not> isResourceGroupError msg_location_required"
  "\<not> isResourceGroupError msg_select_template"
  by (simp_all add: isResourceGroupError_def msg_rg_required_def msg_rg_charset_def
      msg_rg_too_long_def msg_location_required_def msg_select_template_def js_def ch_def)

lemma validateDeploymentParameters_strings:
  assumes "parameters (js ''resourceGroupName'') = map_option PStr rgo"
    and "parameters (js ''location'') = map_option PStr loc"
  shows "validateDeploymentParameters t parameters =
     (let rg = trim (case rgo of None \<Rightarrow> [] | Some s \<Rightarrow> s);
          l = trim (case loc of None \<Rightarrow> [] | Some s \<Rightarrow> s)
      in Inr ((if falsy t then [msg_select_template] else []) @
          (if rg = [] then [msg_rg_required] else []) @
          (if l = [] then [msg_location_required] else []) @
          (if rg \<noteq> [] then
             (if \<not> rgNamePattern_test rg then [msg_rg_charset] else []) @
             (if length rg > 90 then [msg_rg_too_long] else [])
           else [])))"
  using assms by (cases loc; cases rgo) (simp_all add: validateDeploymentParameters_def)

text \<open>
  Claim C1, as the code has it. Both validators trim the name first. The field validator
  accepts a text exactly when the trimmed text has only characters of \<open>[A-Za-z0-9._-]\<close>
  and a length between 1 and 90; \<open>validateDeploymentParameters\<close>, given that text as the
  resource group name (and a location that is a string or absent), reports an error about
  the resource group exactly when the trimmed text breaks that rule.
\<close>

theorem rg_validation_of_trimmed_name:
  assumes "field_value f = s"
    and "parameters (js ''resourceGroupName'') = Some (PStr s)"
    and "parameters (js ''location'') = map_option PStr loc"
  shows "(accepted (validateResourceGroupName f) \<longleftrightarrow> rg_name_spec (trim s)) \<and>
         (\<exists>errs. validateDeploymentParameters t parameters = Inr errs \<and>
            ((\<exists>e\<in>set errs. isResourceGroupError e) \<longleftrightarrow> \<not> rg_name_spec (trim s)))"
proof -
  have a: "accepted (validateResourceGroupName f) \<longleftrightarrow> rg_name_spec (trim s)"
    using assms(1) accepted_validateResourceGroupName by simp
  have b: "rg_name_spec (trim s) \<longleftrightarrow>
      trim s \<noteq> [] \<and> rgNamePattern_test (trim s) \<and> \<not> length (trim s) > 90"
    using pattern_and_length_iff by simp
  have c: "parameters (js ''resourceGroupName'') = map_option PStr (Some s)"
    using assms(2) by simp
  show ?thesis
    unfolding validateDeploymentParameters_strings [OF c assms(3)] b a
    using rg_errors by (auto simp: b Let_def)
qed

theorem rg_validation_of_trimmed_name_witness:
  "accepted (validateResourceGroupName
      \<lparr>field_value = js ''my-rg_01'', classList = [], invalid_feedback = []\<rparr>) \<and>
   rg_name_spec (trim (js ''my-rg_01'')) \<and>
   validateDeploymentParameters (Some (js ''storage''))
      ((Map.empty :: unit parameters)(js ''resourceGroupName'' \<mapsto> PStr (js ''my-rg_01''),
         js ''location'' \<mapsto> PStr (js ''westeurope''))) = Inr []"
  using rg_validation_of_trimmed_name
    [of "\<lparr>field_value = js ''my-rg_01'', classList = [], invalid_feedback = []\<rparr>"
        "js ''my-rg_01''"
        "(Map.empty :: unit parameters)(js ''resourceGroupName'' \<mapsto> PStr (js ''my-rg_01''),
           js ''location'' \<mapsto> PStr (js ''westeurope''))"
        "Some (js ''westeurope'')" "Some (js ''storage'')"]
  by (simp add: js_def ch_def validateDeploymentParameters_def trim_def isWhiteSpace_def
      rgNameClass_def rg_name_spec_def)

text \<open>
  The claim as written, on the untrimmed text, fails: the text \<open>" a"\<close> holds a space, yet
  the field validator accepts it and \<open>validateDeploymentParameters\<close> reports nothing.
\<close>

theorem rg_validation_untrimmed_counterexample:
  "accepted (validateResourceGroupName
      \<lparr>field_value = js '' a'', classList = [], invalid_feedback = []\<rparr>) \<and>
   validateDeploymentParameters (Some (js ''storage''))
      ((Map.empty :: unit parameters)(js ''resourceGroupName'' \<mapsto> PStr (js '' a''),
         js ''location'' \<mapsto> PStr (js ''westeurope''))) = Inr [] \<and>
   \<not> rg_name_spec (js '' a'')"
  by (simp add: js_def ch_def validateDeploymentParameters_def validateResourceGroupName_def
      accepted_def hideFieldError_def classList_add_def classList_remove_def trim_def
      isWhiteSpace_def rgNameClass_def rg_name_spec_def)

section \<open>Properties: a submission without resource group and location\<close>

lemma all_dropWhile_iff: "(\<forall>x\<in>set (dropWhile P s). P x) \<longleftrightarrow> (\<forall>x\<in>set s. P x)"
  by (induction s) auto

lemma trim_empty_iff: "trim s = [] \<longleftrightarrow> (\<forall>c\<in>set s. isWhiteSpace c)"
  by (simp add: trim_def all_dropWhile_iff)

lemma no_fetch_in_validation_failure:
  assumes "validateDeploymentParameters t (collectParameters P doc) = Inr errs" and "errs \<noteq> []"
  shows "\<not> list_ex is_fetch (deployTemplate P t doc server)"
  using assms by (simp add: deployTemplate_def)

text \<open>
  Claim C2. A template is selected, and the collected resource group name and location
  are absent, empty or made of whitespace only. Then \<open>validateDeploymentParameters\<close>
  returns exactly two errors (the two "is required" messages), and no effect of
  \<open>deployTemplate\<close> is the request to \<open>/deploy\<close>, whatever the server would answer.
\<close>

theorem empty_submission_two_errors_no_fetch:
  assumes "\<not> falsy selectedTemplate"
    and "or_empty (collectParameters JSON_parse doc (js ''resourceGroupName'')) = PStr rg"
    and "or_empty (collectParameters JSON_parse doc (js ''location'')) = PStr loc"
    and "\<forall>c\<in>set rg. isWhiteSpace c"
    and "\<forall>c\<in>set loc. isWhiteSpace c"
  shows "\<exists>errs. validateDeploymentParameters selectedTemplate (collectParameters JSON_parse doc) =
           Inr errs \<and> length errs = 2 \<and> errs = [msg_rg_required, msg_location_required] \<and>
         \<not> list_ex is_fetch (deployTemplate JSON_parse selectedTemplate doc server)"
proof -
  have rg: "trim rg = []" and loc: "trim loc = []"
    using assms(4,5) trim_empty_iff by auto
  have v: "validateDeploymentParameters selectedTemplate (collectParameters JSON_parse doc) =
           Inr [msg_rg_required, msg_location_required]"
    using assms(1,2,3) rg loc by (simp add: validateDeploymentParameters_def)
  from no_fetch_in_validation_failure [OF v] v show ?thesis by simp
qed

theorem empty_submission_two_errors_no_fetch_witness:
  "validateDeploymentParameters (Some (js ''storage''))
     (collectParameters (\<lambda>s. None :: unit option)
        \<lparr>resourceGroupField = Some (js ''  ''), locationField = Some [],
         subscriptionField = None, parametersForm = None, deployButton = True\<rparr>) =
     Inr [msg_rg_required, msg_location_required] \<and>
   deployTemplate (\<lambda>s. None :: unit option) (Some (js ''storage''))
        \<lparr>resourceGroupField = Some (js ''  ''), locationField = Some [],
         subscriptionField = None, parametersForm = None, deployButton = True\<rparr>
        (\<lambda>d. ResponseOk None) =
     [ShowError (js ''Please fix the following errors:'' @ bullet @ msg_rg_required @ bullet @
        msg_location_required),
      HighlightValidationErrors [msg_rg_required, msg_location_required]]"
  using empty_submission_two_errors_no_fetch [of "Some (js ''storage'')"
        "\<lambda>s. None :: unit option"
        "\<lparr>resourceGroupField = Some (js ''  ''), locationField = Some [],
         subscriptionField = None, parametersForm = None, deployButton = True\<rparr>"
        "js ''  ''" "[]" "\<lambda>d. ResponseOk None"]
  by (simp add: deployTemplate_def collectParameters_def isWhiteSpace_def js_def ch_def)

section \<open>Properties: monitoring a deployment\<close>

lemma step_Tick:
  "step endpoint \<lparr>attempts = a, checks = c, in_flight = fl, interval = Active, notices = ns,
      reloads = r\<rparr> Tick =
   \<lparr>attempts = a, checks = c + 1, in_flight = fl @ [c], interval = Active, notices = ns,
      reloads = r\<rparr>"
  by (simp add: step_def startCheck_def)

lemma step_Answer_nonterminal:
  assumes "\<not> terminal (endpoint i)" and "i \<in> set fl"
  shows "step endpoint \<lparr>attempts = a, checks = c, in_flight = fl, interval = v, notices = ns,
      reloads = r\<rparr> (Answer i) =
   \<lparr>attempts = a + 1, checks = c, in_flight = filter (\<lambda>j. j \<noteq> i) fl,
    interval = (if i = 0 then (if a + 1 \<ge> 20 then v else Active)
                else (if a + 1 \<ge> 20 then Cleared else v)),
    notices = (if a + 1 \<ge> 20 then ns @ [TimeoutWarning] else ns),
    reloads = r\<rparr>"
  using assms
  by (simp add: step_def checkStatus_def Let_def maxAttempts_def terminal_def)

lemma Running_not_terminal: "\<not> terminal (StatusOk (Some (js ''Running'')))"
  by (simp add: terminal_def js_def ch_def)

lemma answered_after_45s_events:
  "answered_after_45s =
     [Answer 0, Tick,
      Tick, Answer 1, Tick, Answer 2, Tick, Answer 3, Tick, Answer 4, Tick, Answer 5,
      Tick, Answer 6, Tick, Answer 7, Tick, Answer 8, Tick, Answer 9, Tick, Answer 10,
      Tick, Answer 11, Tick, Answer 12, Tick, Answer 13, Tick, Answer 14, Tick, Answer 15,
      Tick, Answer 16, Tick, Answer 17, Tick, Answer 18, Tick, Answer 19,
      Answer 20]"
  unfolding answered_after_45s_def by (simp add: upt_rec)

text \<open>
  Claim C8 states that \<open>monitorDeployment\<close> makes at most 20 status checks and, when none
  reports a terminal provisioning state, exactly 20 followed by the timeout warning. The
  interval starts a check every 30 seconds whether or not the earlier ones are answered,
  and \<open>attempts\<close> counts answers, not requests. When the deployment stays \<open>Running\<close> and
  every answer takes 45 seconds, the interval is cleared at the twentieth answer, after 21
  requests have been made, and the answer to the request still in flight shows the timeout
  warning a second time.
\<close>

theorem monitorDeployment_overlapping_checks:
  "checks (monitorDeployment (\<lambda>n. StatusOk (Some (js ''Running''))) answered_after_45s) = 21 \<and>
   notices (monitorDeployment (\<lambda>n. StatusOk (Some (js ''Running''))) answered_after_45s) =
     [TimeoutWarning, TimeoutWarning]"
  unfolding monitorDeployment_def answered_after_45s_events Let_def startCheck_def
  by (simp add: step_Tick step_Answer_nonterminal Running_not_terminal)

text \<open>
  Requests that are never answered are not counted at all: after a first answer that is
  not terminal, \<open>n\<close> ticks make \<open>n\<close> more requests, for every \<open>n\<close>.
\<close>

lemma ticks_without_answers:
  "interval m = Active \<Longrightarrow>
   interval (foldl (step endpoint) m (replicate n Tick)) = Active \<and>
   checks (foldl (step endpoint) m (replicate n Tick)) = checks m + n"
proof (induction n arbitrary: m)
  case 0
  then show ?case by simp
next
  case (Suc n)
  have "interval (step endpoint m Tick) = Active"
    using Suc.prems by (simp add: step_def startCheck_def)
  from Suc.IH [OF this] show ?case
    using Suc.prems by (simp add: step_def startCheck_def)
qed

lemma monitorDeployment_unanswered_requests:
  assumes "\<not> terminal (endpoint 0)"
  shows "checks (monitorDeployment endpoint (Answer 0 # replicate n Tick)) = n + 1"
proof -
  let ?m = "step endpoint
      (startCheck \<lparr>attempts = 0, checks = 0, in_flight = [], interval = NotSet, notices = [],
         reloads = 0\<rparr>) (Answer 0)"
  have a: "interval ?m = Active" and c: "checks ?m = 1"
    using assms
    by (simp_all add: step_def startCheck_def checkStatus_def Let_def maxAttempts_def
        terminal_def)
  show ?thesis
    using ticks_without_answers [OF a, of endpoint n] c
    by (simp add: monitorDeployment_def Let_def)
qed

text \<open>
  When every request is answered before the next tick, no two checks overlap and the bound
  of 20 holds whatever the endpoint answers.
\<close>

lemma answered_at_once_Suc:
  "answered_at_once (Suc n) = answered_at_once n @ [Tick, Answer (Suc n)]"
  by (simp add: answered_at_once_def)

lemma round_answered_at_once:
  assumes "in_flight m = []" and "checks m \<le> 20"
    and "interval m = Active \<longrightarrow> checks m = Suc n \<and> attempts m = Suc n \<and> Suc n < 20"
  shows "in_flight (step endpoint (step endpoint m Tick) (Answer (Suc n))) = [] \<and>
         checks (step endpoint (step endpoint m Tick) (Answer (Suc n))) \<le> 20 \<and>
         (interval (step endpoint (step endpoint m Tick) (Answer (Suc n))) = Active \<longrightarrow>
            checks (step endpoint (step endpoint m Tick) (Answer (Suc n))) = Suc (Suc n) \<and>
            attempts (step endpoint (step endpoint m Tick) (Answer (Suc n))) = Suc (Suc n) \<and>
            Suc (Suc n) < 20)"
proof (cases "interval m = Active")
  case True
  then show ?thesis
    using assms
    by (simp add: step_def startCheck_def checkStatus_def Let_def maxAttempts_def)
next
  case False
  then show ?thesis
    using assms by (simp add: step_def)
qed

lemma answered_at_once_invariant:
  "in_flight (monitorDeployment endpoint (answered_at_once n)) = [] \<and>
   checks (monitorDeployment endpoint (answered_at_once n)) \<le> 20 \<and>
   (interval (monitorDeployment endpoint (answered_at_once n)) = Active \<longrightarrow>
      checks (monitorDeployment endpoint (answered_at_once n)) = Suc n \<and>
      attempts (monitorDeployment endpoint (answered_at_once n)) = Suc n \<and> Suc n < 20)"
proof (induction n)
  case 0
  show ?case
    by (simp add: monitorDeployment_def answered_at_once_def step_def startCheck_def
        checkStatus_def Let_def maxAttempts_def)
next
  case (Suc n)
  have "monitorDeployment endpoint (answered_at_once (Suc n)) =
        step endpoint (step endpoint (monitorDeployment endpoint (answered_at_once n)) Tick)
          (Answer (Suc n))"
    by (simp add: monitorDeployment_def answered_at_once_Suc Let_def)
  then show ?case
    using round_answered_at_once [of "monitorDeployment endpoint (answered_at_once n)" n endpoint]
      Suc.IH
    by simp
qed

lemma monitorDeployment_answered_at_once_bound:
  "checks (monitorDeployment endpoint (answered_at_once n)) \<le> maxAttempts"
  using answered_at_once_invariant [of endpoint n] by (simp add: maxAttempts_def)

section \<open>Properties: cascading dropdowns\<close>

lemma set_set_insert_all: "set (set_insert_all acc xs) = set acc \<union> set xs"
  by (induction xs arbitrary: acc) auto

lemma first_of_set_insert_all:
  "first_of (set_insert_all acc xs) = (if acc = [] then first_of xs else first_of acc)"
proof (induction xs arbitrary: acc)
  case Nil
  then show ?case by (cases acc) auto
next
  case (Cons x xs)
  then show ?case by (cases acc) auto
qed

lemma set_unique: "set (unique xs) = set xs"
  by (simp add: unique_def set_set_insert_all)

lemma first_of_unique: "first_of (unique xs) = first_of xs"
  by (simp add: unique_def first_of_set_insert_all)

lemma first_of_Some_iff: "first_of xs = Some v \<longleftrightarrow> (\<exists>ys. xs = v # ys)"
  by (cases xs) auto

lemma first_of_None_iff: "first_of xs = None \<longleftrightarrow> xs = []"
  by (cases xs) auto

lemma select_after_innerHTML:
  assumes "first_of vs = Some v"
  shows "select_value (set_innerHTML vs s) = v"
    and "value_or_first (set_innerHTML vs s) vs = Some v"
    and "set_value (Some v) (set_innerHTML vs s) = s\<lparr>options := vs, selectedIndex := Some 0\<rparr>"
  using assms
  by (auto simp: first_of_Some_iff select_value_def set_innerHTML_def value_or_first_def set_value_def)

lemma updateDropdowns_result:
  assumes doc: "upstream doc = Some p" "middle doc = Some s2" "downstream doc = Some s3"
    and p: "p \<in> col1 ` set table"
  obtains v2 ys2 v3 ys3 where
     "unique (map col2 (filter (\<lambda>x. col1 x = p) table)) = v2 # ys2"
     "unique (map col3 (filter (\<lambda>x. col2 x = v2) (filter (\<lambda>x. col1 x = p) table))) = v3 # ys3"
     "updateDropdowns col1 col2 col3 table doc =
       doc\<lparr>middle := Some (s2\<lparr>options := v2 # ys2, selectedIndex := Some 0\<rparr>),
           downstream := Some (s3\<lparr>options := v3 # ys3, selectedIndex := Some 0\<rparr>)\<rparr>"
proof -
  let ?f1 = "filter (\<lambda>x. col1 x = p) table"
  let ?v2s = "unique (map col2 ?f1)"
  from p have "?f1 \<noteq> []" by (auto simp: filter_empty_conv)
  then obtain r rs where f1: "?f1 = r # rs" by (cases ?f1) auto
  then have fo2: "first_of ?v2s = Some (col2 r)" by (simp add: first_of_unique)
  let ?v2 = "col2 r"
  let ?f2 = "filter (\<lambda>x. col2 x = ?v2) ?f1"
  let ?v3s = "unique (map col3 ?f2)"
  have "?f2 = r # filter (\<lambda>x. col2 x = ?v2) rs" by (simp add: f1)
  then have fo3: "first_of ?v3s = Some (col3 r)" by (simp add: first_of_unique)
  have eq: "(\<lambda>x. Some (col2 x) = Some ?v2) = (\<lambda>x. col2 x = ?v2)" by auto
  have u: "updateDropdowns col1 col2 col3 table doc =
       doc\<lparr>middle := Some (s2\<lparr>options := ?v2s, selectedIndex := Some 0\<rparr>),
           downstream := Some (s3\<lparr>options := ?v3s, selectedIndex := Some 0\<rparr>)\<rparr>"
    unfolding updateDropdowns_def doc Let_def prod.case option.case
      select_after_innerHTML [OF fo2] eq select_after_innerHTML [OF fo3] fo3 ..
  from fo2 obtain ys2 where y2: "?v2s = ?v2 # ys2" unfolding first_of_Some_iff ..
  from fo3 obtain ys3 where y3: "?v3s = col3 r # ys3" unfolding first_of_Some_iff ..
  show ?thesis
    by (rule that [OF y2 y3]) (simp only: u y2 y3)
qed

lemma cascade_okI:
  assumes "upstream doc = Some p" "middle doc = Some a" "downstream doc = Some b"
    and "set (options a) = col2 ` {x \<in> set table. col1 x = p}"
    and "select_value a \<in> set (options a)"
    and "set (options b) = col3 ` {x \<in> set table. col1 x = p \<and> col2 x = select_value a}"
    and "select_value b \<in> set (options b)"
    and "first_of (options b) = Some (select_value b)"
  shows "cascade_ok col1 col2 col3 table doc"
  using assms by (simp add: cascade_ok_def)

lemma updateDropdowns_ok:
  assumes doc: "upstream doc = Some p" "middle doc = Some s2" "downstream doc = Some s3"
    and p: "p \<in> col1 ` set table"
  shows "cascade_ok col1 col2 col3 table (updateDropdowns col1 col2 col3 table doc)"
proof -
  obtain v2 ys2 v3 ys3 where
    y2: "unique (map col2 (filter (\<lambda>x. col1 x = p) table)) = v2 # ys2" and
    y3: "unique (map col3 (filter (\<lambda>x. col2 x = v2) (filter (\<lambda>x. col1 x = p) table))) = v3 # ys3" and
    u: "updateDropdowns col1 col2 col3 table doc =
       doc\<lparr>middle := Some (s2\<lparr>options := v2 # ys2, selectedIndex := Some 0\<rparr>),
           downstream := Some (s3\<lparr>options := v3 # ys3, selectedIndex := Some 0\<rparr>)\<rparr>"
    using updateDropdowns_result [OF assms, of col2 col3] .
  let ?a = "s2\<lparr>options := v2 # ys2, selectedIndex := Some 0\<rparr>"
  let ?b = "s3\<lparr>options := v3 # ys3, selectedIndex := Some 0\<rparr>"
  have "set (v2 # ys2) = set (map col2 (filter (\<lambda>x. col1 x = p) table))"
    unfolding y2 [symmetric] set_unique ..
  then have s2: "set (v2 # ys2) = col2 ` {x \<in> set table. col1 x = p}"
    by simp
  have "set (v3 # ys3) = set (map col3 (filter (\<lambda>x. col2 x = v2) (filter (\<lambda>x. col1 x = p) table)))"
    unfolding y3 [symmetric] set_unique ..
  also have "\<dots> = col3 ` {x \<in> set table. col1 x = p \<and> col2 x = v2}"
    by auto
  finally have s3: "set (v3 # ys3) = col3 ` {x \<in> set table. col1 x = p \<and> col2 x = v2}" .
  have v2: "select_value ?a = v2" and v3: "select_value ?b = v3"
    by (simp_all add: select_value_def)
  have o2: "options ?a = v2 # ys2" and o3: "options ?b = v3 # ys3" by simp_all
  show ?thesis
    unfolding u
  proof (rule cascade_okI [where p = p and a = ?a and b = ?b])
    show "set (options ?a) = col2 ` {x \<in> set table. col1 x = p}"
      unfolding o2 by (rule s2)
    show "set (options ?b) = col3 ` {x \<in> set table. col1 x = p \<and> col2 x = select_value ?a}"
      unfolding o3 v2 by (rule s3)
    show "select_value ?a \<in> set (options ?a)" unfolding o2 v2 by simp
    show "select_value ?b \<in> set (options ?b)" unfolding o3 v3 by simp
    show "first_of (options ?b) = Some (select_value ?b)" unfolding o3 v3 by simp
  qed (simp_all add: doc)
qed

lemma updateAppServicePlanDropdowns_eq:
  "updateAppServicePlanDropdowns = updateDropdowns os tier sku APP_SERVICE_PLANS"
  unfolding updateAppServicePlanDropdowns_def updateDropdowns_def ..

lemma updateSqlDropdowns_eq:
  "updateSqlDropdowns = updateDropdowns edition compute version SQL_EDITIONS"
  unfolding updateSqlDropdowns_def updateDropdowns_def ..

lemma updateStorageDropdowns_eq:
  "updateStorageDropdowns = updateDropdowns kind replication performance STORAGE_ACCOUNTS"
  unfolding updateStorageDropdowns_def updateDropdowns_def ..

text \<open>
  Claim C4, as the code has it. All three elements exist and the upstream value occurs in
  the first column of the table. Then, after the update function of each cascade, the
  options of the next field are the values the table allows for the upstream value, its
  selected value is one of them, the options of the last field are the values the table
  allows for the two selections above it, and the last field's selected value is the
  first of its options.
\<close>

theorem cascades_keep_children_in_range:
  assumes "upstream doc = Some v" and "middle doc = Some s2" and "downstream doc = Some s3"
  shows "(v \<in> os ` set APP_SERVICE_PLANS \<longrightarrow>
            cascade_ok os tier sku APP_SERVICE_PLANS (updateAppServicePlanDropdowns doc)) \<and>
         (v \<in> edition ` set SQL_EDITIONS \<longrightarrow>
            cascade_ok edition compute version SQL_EDITIONS (updateSqlDropdowns doc)) \<and>
         (v \<in> kind ` set STORAGE_ACCOUNTS \<longrightarrow>
            cascade_ok kind replication performance STORAGE_ACCOUNTS (updateStorageDropdowns doc))"
  unfolding updateAppServicePlanDropdowns_eq updateSqlDropdowns_eq updateStorageDropdowns_eq
  by (intro conjI impI updateDropdowns_ok [OF assms])

lemma filter_os_Linux:
  "filter (\<lambda>x. os x = js ''Linux'') APP_SERVICE_PLANS =
     [\<lparr>os = js ''Linux'', tier = js ''Basic'', sku = js ''B1''\<rparr>,
      \<lparr>os = js ''Linux'', tier = js ''Standard'', sku = js ''S1''\<rparr>,
      \<lparr>os = js ''Linux'', tier = js ''PremiumV3'', sku = js ''P1v3''\<rparr>]"
  by (simp add: APP_SERVICE_PLANS_def js_def ch_def)

lemma filter_os_macOS: "filter (\<lambda>x. os x = js ''macOS'') APP_SERVICE_PLANS = []"
  by (simp add: APP_SERVICE_PLANS_def js_def ch_def)

lemma update_Linux:
  "updateAppServicePlanDropdowns
      \<lparr>upstream = Some (js ''Linux''),
       middle = Some \<lparr>options = [js ''Free'', js ''Basic''], selectedIndex = Some 1\<rparr>,
       downstream = Some \<lparr>options = [js ''B1''], selectedIndex = Some 0\<rparr>\<rparr> =
      \<lparr>upstream = Some (js ''Linux''),
       middle = Some \<lparr>options = [js ''Basic'', js ''Standard'', js ''PremiumV3''],
                      selectedIndex = Some 0\<rparr>,
       downstream = Some \<lparr>options = [js ''B1''], selectedIndex = Some 0\<rparr>\<rparr>"
  unfolding updateAppServicePlanDropdowns_def Let_def cascade.simps prod.case option.case
    filter_os_Linux
  apply (simp add: unique_def set_innerHTML_def js_def ch_def)
  apply (simp add: value_or_first_def select_value_def set_value_def)
  done

lemma update_macOS:
  "updateAppServicePlanDropdowns
      \<lparr>upstream = Some (js ''macOS''),
       middle = Some \<lparr>options = [js ''Free'', js ''Basic''], selectedIndex = Some 1\<rparr>,
       downstream = Some \<lparr>options = [js ''B1''], selectedIndex = Some 0\<rparr>\<rparr> =
      \<lparr>upstream = Some (js ''macOS''),
       middle = Some \<lparr>options = [], selectedIndex = None\<rparr>,
       downstream = Some \<lparr>options = [], selectedIndex = None\<rparr>\<rparr>"
  unfolding updateAppServicePlanDropdowns_def Let_def cascade.simps prod.case option.case
    filter_os_macOS
  apply (simp add: unique_def set_innerHTML_def)
  apply (simp add: value_or_first_def select_value_def set_value_def)
  done

theorem cascades_keep_children_in_range_witness:
  "cascade_ok os tier sku APP_SERVICE_PLANS
     (updateAppServicePlanDropdowns
        \<lparr>upstream = Some (js ''Linux''),
         middle = Some \<lparr>options = [js ''Free'', js ''Basic''], selectedIndex = Some 1\<rparr>,
         downstream = Some \<lparr>options = [js ''B1''], selectedIndex = Some 0\<rparr>\<rparr>) \<and>
   updateAppServicePlanDropdowns
      \<lparr>upstream = Some (js ''Linux''),
       middle = Some \<lparr>options = [js ''Free'', js ''Basic''], selectedIndex = Some 1\<rparr>,
       downstream = Some \<lparr>options = [js ''B1''], selectedIndex = Some 0\<rparr>\<rparr> =
      \<lparr>upstream = Some (js ''Linux''),
       middle = Some \<lparr>options = [js ''Basic'', js ''Standard'', js ''PremiumV3''],
                      selectedIndex = Some 0\<rparr>,
       downstream = Some \<lparr>options = [js ''B1''], selectedIndex = Some 0\<rparr>\<rparr> \<and>
   cascade_ok edition compute version SQL_EDITIONS
     (updateSqlDropdowns
        \<lparr>upstream = Some (js ''Standard''),
         middle = Some \<lparr>options = [], selectedIndex = None\<rparr>,
         downstream = Some \<lparr>options = [], selectedIndex = None\<rparr>\<rparr>) \<and>
   cascade_ok kind replication performance STORAGE_ACCOUNTS
     (updateStorageDropdowns
        \<lparr>upstream = Some (js ''StorageV2''),
         middle = Some \<lparr>options = [], selectedIndex = None\<rparr>,
         downstream = Some \<lparr>options = [], selectedIndex = None\<rparr>\<rparr>)"
proof -
  let ?D = "\<lparr>upstream = Some (js ''Linux''),
       middle = Some \<lparr>options = [js ''Free'', js ''Basic''], selectedIndex = Some 1\<rparr>,
       downstream = Some \<lparr>options = [js ''B1''], selectedIndex = Some 0\<rparr>\<rparr>"
  let ?E = "\<lparr>upstream = Some (js ''Standard''),
       middle = Some \<lparr>options = [], selectedIndex = None\<rparr>,
       downstream = Some \<lparr>options = [], selectedIndex = None\<rparr>\<rparr>"
  let ?F = "\<lparr>upstream = Some (js ''StorageV2''),
       middle = Some \<lparr>options = [], selectedIndex = None\<rparr>,
       downstream = Some \<lparr>options = [], selectedIndex = None\<rparr>\<rparr>"
  have a: "upstream ?D = Some (js ''Linux'')"
    "middle ?D = Some \<lparr>options = [js ''Free'', js ''Basic''], selectedIndex = Some 1\<rparr>"
    "downstream ?D = Some \<lparr>options = [js ''B1''], selectedIndex = Some 0\<rparr>"
    by simp_all
  have b: "upstream ?E = Some (js ''Standard'')"
    "middle ?E = Some \<lparr>options = [], selectedIndex = None\<rparr>"
    "downstream ?E = Some \<lparr>options = [], selectedIndex = None\<rparr>"
    by simp_all
  have c: "upstream ?F = Some (js ''StorageV2'')"
    "middle ?F = Some \<lparr>options = [], selectedIndex = None\<rparr>"
    "downstream ?F = Some \<lparr>options = [], selectedIndex = None\<rparr>"
    by simp_all
  have h: "js ''Linux'' \<in> os ` set APP_SERVICE_PLANS"
    by (simp add: APP_SERVICE_PLANS_def js_def ch_def)
  have s: "js ''Standard'' \<in> edition ` set SQL_EDITIONS"
    by (simp add: SQL_EDITIONS_def js_def ch_def)
  have k: "js ''StorageV2'' \<in> kind ` set STORAGE_ACCOUNTS"
    by (simp add: STORAGE_ACCOUNTS_def js_def ch_def)
  note 1 = cascades_keep_children_in_range [OF a, THEN conjunct1, THEN mp, OF h]
  note 2 = cascades_keep_children_in_range [OF b, THEN conjunct2, THEN conjunct1, THEN mp, OF s]
  note 3 = cascades_keep_children_in_range [OF c, THEN conjunct2, THEN conjunct2, THEN mp, OF k]
  show ?thesis
    by (intro conjI) (rule 1 update_Linux 2 3)+
qed

text \<open>
  Without the condition on the upstream value the claim fails: for an operating system
  that the table does not list, both dropdowns end with no option at all and the empty
  value, which belongs to no allowed set.
\<close>

theorem cascade_unknown_parent_counterexample:
  "updateAppServicePlanDropdowns
      \<lparr>upstream = Some (js ''macOS''),
       middle = Some \<lparr>options = [js ''Free'', js ''Basic''], selectedIndex = Some 1\<rparr>,
       downstream = Some \<lparr>options = [js ''B1''], selectedIndex = Some 0\<rparr>\<rparr> =
      \<lparr>upstream = Some (js ''macOS''),
       middle = Some \<lparr>options = [], selectedIndex = None\<rparr>,
       downstream = Some \<lparr>options = [], selectedIndex = None\<rparr>\<rparr> \<and>
   select_value \<lparr>options = [], selectedIndex = None\<rparr> \<notin>
     set (options \<lparr>options = [], selectedIndex = None\<rparr>) \<and>
   \<not> cascade_ok os tier sku APP_SERVICE_PLANS
     (updateAppServicePlanDropdowns
        \<lparr>upstream = Some (js ''macOS''),
         middle = Some \<lparr>options = [js ''Free'', js ''Basic''], selectedIndex = Some 1\<rparr>,
         downstream = Some \<lparr>options = [js ''B1''], selectedIndex = Some 0\<rparr>\<rparr>)"
  unfolding update_macOS by (simp add: cascade_ok_def)

section \<open>Properties: the log viewer\<close>

lemma filter_throwing_total:
  "(\<forall>x\<in>set xs. \<exists>b. p x = Inr b) \<Longrightarrow>
   filter_throwing p xs = Inr (filter (\<lambda>x. p x = Inr True) xs)"
  by (induction xs) auto

lemma filter_throwing_Inr:
  "filter_throwing p xs = Inr ys \<Longrightarrow>
   ys = filter (\<lambda>x. p x = Inr True) xs \<and> (\<forall>x\<in>set xs. \<exists>b. p x = Inr b)"
  by (induction xs arbitrary: ys) (auto split: sum.splits if_splits)

lemma filter_throwing_fixed:
  "(\<forall>y\<in>set ys. p y = Inr True) \<Longrightarrow> filter_throwing p ys = Inr ys"
  by (induction ys) auto

lemma filter_throwing_idem:
  "and_then (filter_throwing p xs) (filter_throwing p) = filter_throwing p xs"
proof (cases "filter_throwing p xs")
  case (Inl e)
  then show ?thesis by (simp add: and_then_def)
next
  case (Inr ys)
  from filter_throwing_Inr [OF Inr] have "\<forall>y\<in>set ys. p y = Inr True" by simp
  from filter_throwing_fixed [OF this] Inr show ?thesis by (simp add: and_then_def)
qed

lemma filter_throwing_twice:
  assumes "\<forall>x\<in>set xs. \<exists>b. p x = Inr b" and "\<forall>x\<in>set xs. \<exists>b. q x = Inr b"
  shows "and_then (filter_throwing p xs) (filter_throwing q) =
         Inr (filter (\<lambda>x. q x = Inr True) (filter (\<lambda>x. p x = Inr True) xs))"
proof -
  have "\<forall>x\<in>set (filter (\<lambda>x. p x = Inr True) xs). \<exists>b. q x = Inr b"
    using assms(2) by simp
  from filter_throwing_total [OF this] filter_throwing_total [OF assms(1)]
  show ?thesis by (simp add: and_then_def)
qed

lemma filter_throwing_thrice:
  assumes "\<forall>x\<in>set xs. \<exists>b. p x = Inr b" and "\<forall>x\<in>set xs. \<exists>b. q x = Inr b"
    and "\<forall>x\<in>set xs. \<exists>b. r x = Inr b"
  shows "and_then (and_then (filter_throwing p xs) (filter_throwing q)) (filter_throwing r) =
         Inr (filter (\<lambda>x. p x = Inr True \<and> q x = Inr True \<and> r x = Inr True) xs)"
proof -
  have "\<forall>x\<in>set (filter (\<lambda>x. q x = Inr True) (filter (\<lambda>x. p x = Inr True) xs)).
          \<exists>b. r x = Inr b"
    using assms(3) by simp
  from filter_throwing_total [OF this] filter_throwing_twice [OF assms(1,2)]
  show ?thesis by (simp add: and_then_def conj_commute conj_left_commute)
qed

text \<open>Each step is a filter by a callback that may throw.\<close>

lemma filterByLevel_callback:
  "filterByLevel lf xs =
     filter_throwing (\<lambda>log. Inr (lf = js ''ALL'' \<or> log_level log = JString lf)) xs"
  by (simp add: filterByLevel_def filter_throwing_total filter_throwing_fixed)

lemma filterByPhase_callback:
  "filterByPhase up pf xs =
     filter_throwing
       (\<lambda>log. if pf = js ''ALL'' then Inr True
               else case case_call up (log_phase log) of
                      Inl e \<Rightarrow> Inl e
                    | Inr p \<Rightarrow> Inr (p = pf)) xs"
  by (simp add: filterByPhase_def filter_throwing_fixed)

lemma filterBySearch_callback:
  "filterBySearch lo q xs =
     filter_throwing
       (\<lambda>log. if q = [] then Inr True else search_matches lo (lo q) log) xs"
  by (simp add: filterBySearch_def filter_throwing_fixed Let_def)

lemma case_call_string: "is_string x \<Longrightarrow> \<exists>s. case_call f x = Inr s"
  by (cases x) simp_all

lemma search_matches_string_fields:
  "string_fields log \<Longrightarrow> \<exists>b. search_matches lo q log = Inr b"
  by (cases "log_message log"; cases "log_level log"; cases "log_phase log")
     (auto simp: string_fields_def search_matches_def)

lemma and_then_Inr_iff:
  "and_then r f = Inr y \<longleftrightarrow> (\<exists>x. r = Inr x \<and> f x = Inr y)"
  by (cases r) (simp_all add: and_then_def)

lemma filter_throwing_whole_idem:
  assumes "and_then (and_then (filter_throwing p xs) (filter_throwing q)) (filter_throwing r) =
           Inr ys"
  shows "and_then (and_then (filter_throwing p ys) (filter_throwing q)) (filter_throwing r) =
         Inr ys"
proof -
  from assms obtain as bs where a: "filter_throwing p xs = Inr as"
    and b: "filter_throwing q as = Inr bs" and c: "filter_throwing r bs = Inr ys"
    by (auto simp: and_then_Inr_iff)
  from filter_throwing_Inr [OF a] filter_throwing_Inr [OF b] filter_throwing_Inr [OF c]
  have "\<forall>y\<in>set ys. p y = Inr True" "\<forall>y\<in>set ys. q y = Inr True"
    "\<forall>y\<in>set ys. r y = Inr True"
    by auto
  then show ?thesis
    by (simp add: filter_throwing_fixed and_then_def)
qed

text \<open>
  Claim C3, as the code has it. The filter effect is the search step after the phase step
  after the level step on \<open>logs\<close>; it sets \<open>filteredLogs\<close> and nothing else, or it ends
  with the exception of a step and sets nothing. On every list each step applied twice
  gives what it gives once, and so does the whole computation, exception included. The
  phase step and the search step throw on an entry whose phase, level or message is not a
  string, so the order of the steps can be seen. On a list whose entries have strings as
  level, phase and message no step throws, and the three steps give the same list in each
  of their six orders. This holds for every level filter, phase filter and search query,
  and whatever the case mappings are.
\<close>

theorem log_filtering_is_a_projection:
  fixes v :: "('t, 'x, 'x jsval, 'd) viewer"
    and xs :: "('t, 'x, 'x jsval, 'd) log_entry list"
    and toLowerCase toUpperCase :: "jsstring \<Rightarrow> jsstring"
  defines "L \<equiv> filterByLevel (levelFilter v)"
    and "P \<equiv> filterByPhase toUpperCase (phaseFilter v)"
    and "S \<equiv> filterBySearch toLowerCase (searchQuery v)"
  shows "applyFilters toLowerCase toUpperCase v =
           and_then (and_then (and_then (L (logs v)) P) S)
             (\<lambda>filtered. Inr (v\<lparr>filteredLogs := filtered\<rparr>)) \<and>
         (\<forall>v'. applyFilters toLowerCase toUpperCase v = Inr v' \<longrightarrow> logs v' = logs v) \<and>
         and_then (L xs) L = L xs \<and> and_then (P xs) P = P xs \<and> and_then (S xs) S = S xs \<and>
         and_then (and_then (and_then (and_then (and_then (L xs) P) S) L) P) S =
           and_then (and_then (L xs) P) S \<and>
         ((\<forall>log\<in>set xs. string_fields log) \<longrightarrow>
            (\<exists>ys. and_then (and_then (L xs) P) S = Inr ys \<and>
                  and_then (and_then (L xs) S) P = Inr ys \<and>
                  and_then (and_then (P xs) L) S = Inr ys \<and>
                  and_then (and_then (P xs) S) L = Inr ys \<and>
                  and_then (and_then (S xs) L) P = Inr ys \<and>
                  and_then (and_then (S xs) P) L = Inr ys))"
proof -
  have 1: "applyFilters toLowerCase toUpperCase v =
           and_then (and_then (and_then (L (logs v)) P) S)
             (\<lambda>filtered. Inr (v\<lparr>filteredLogs := filtered\<rparr>))"
    by (simp add: applyFilters_def L_def P_def S_def and_then_def split: sum.splits)
  have 2: "\<forall>v'. applyFilters toLowerCase toUpperCase v = Inr v' \<longrightarrow> logs v' = logs v"
    unfolding 1 by (auto simp: and_then_Inr_iff)
  have 3: "and_then (L xs) L = L xs" "and_then (P xs) P = P xs" "and_then (S xs) S = S xs"
    unfolding L_def P_def S_def filterByLevel_callback filterByPhase_callback
      filterBySearch_callback
    by (rule filter_throwing_idem)+
  have 4: "and_then (and_then (and_then (and_then (and_then (L xs) P) S) L) P) S =
           and_then (and_then (L xs) P) S"
  proof (cases "and_then (and_then (L xs) P) S")
    case (Inl e)
    then show ?thesis by (simp add: and_then_def)
  next
    case (Inr ys)
    have "and_then (and_then (L ys) P) S = Inr ys"
      using Inr
      unfolding L_def P_def S_def filterByLevel_callback filterByPhase_callback
        filterBySearch_callback
      by (rule filter_throwing_whole_idem)
    with Inr show ?thesis by (simp add: and_then_def)
  qed
  have 5: "\<exists>ys. and_then (and_then (L xs) P) S = Inr ys \<and>
                  and_then (and_then (L xs) S) P = Inr ys \<and>
                  and_then (and_then (P xs) L) S = Inr ys \<and>
                  and_then (and_then (P xs) S) L = Inr ys \<and>
                  and_then (and_then (S xs) L) P = Inr ys \<and>
                  and_then (and_then (S xs) P) L = Inr ys"
    if sf: "\<forall>log\<in>set xs. string_fields log"
  proof -
    let ?l = "\<lambda>log. (Inr (levelFilter v = js ''ALL'' \<or> log_level log = JString (levelFilter v))
                 :: js_error + bool)"
    let ?p = "\<lambda>log. if phaseFilter v = js ''ALL'' then Inr True
               else case case_call toUpperCase (log_phase log) of
                      Inl e \<Rightarrow> Inl e
                    | Inr p \<Rightarrow> Inr (p = phaseFilter v)"
    let ?s = "\<lambda>log. if searchQuery v = [] then Inr True
               else search_matches toLowerCase (toLowerCase (searchQuery v)) log"
    have l: "\<forall>x\<in>set xs. \<exists>b. ?l x = Inr b" by simp
    have p: "\<forall>x\<in>set xs. \<exists>b. ?p x = Inr b"
    proof
      fix x assume "x \<in> set xs"
      with sf have "string_fields x" by simp
      then show "\<exists>b. ?p x = Inr b"
        by (cases "log_phase x") (auto simp: string_fields_def)
    qed
    have s: "\<forall>x\<in>set xs. \<exists>b. ?s x = Inr b"
    proof
      fix x assume "x \<in> set xs"
      with sf have "string_fields x" by simp
      from search_matches_string_fields [OF this] show "\<exists>b. ?s x = Inr b"
        by auto
    qed
    show ?thesis
      unfolding L_def P_def S_def filterByLevel_callback filterByPhase_callback
        filterBySearch_callback
      unfolding filter_throwing_thrice [OF l p s] filter_throwing_thrice [OF l s p]
        filter_throwing_thrice [OF p l s] filter_throwing_thrice [OF p s l]
        filter_throwing_thrice [OF s l p] filter_throwing_thrice [OF s p l]
      by (intro exI [of _ "filter (\<lambda>x. ?l x = Inr True \<and> ?p x = Inr True \<and> ?s x = Inr True) xs"]
          conjI arg_cong [of _ _ Inr] filter_cong refl) auto
  qed
  from 1 2 3 4 5 show ?thesis by (intro conjI impI)
qed


lemma example_logs_string_fields:
  "\<forall>log\<in>set [\<lparr>log_timestamp = (), log_level = JString (js ''ERROR''),
                log_phase = JString (js ''APPLYING''),
                log_message = JString (js ''quota exceeded''), log_details = ()\<rparr>,
              \<lparr>log_timestamp = (), log_level = JString (js ''INFO''),
                log_phase = JString (js ''PLANNING''),
                log_message = JString (js ''plan ready''), log_details = ()\<rparr> :: (unit, unit, unit jsval, unit) log_entry]. string_fields log"
  by (simp add: string_fields_def)

lemma example_logs_filtered:
  "and_then (and_then (filterByLevel (js ''ERROR'') [\<lparr>log_timestamp = (), log_level = JString (js ''ERROR''),
                log_phase = JString (js ''APPLYING''),
                log_message = JString (js ''quota exceeded''), log_details = ()\<rparr>,
              \<lparr>log_timestamp = (), log_level = JString (js ''INFO''),
                log_phase = JString (js ''PLANNING''),
                log_message = JString (js ''plan ready''), log_details = ()\<rparr> :: (unit, unit, unit jsval, unit) log_entry])
       (filterByPhase (\<lambda>s. s) (js ''ALL'')))
     (filterBySearch (\<lambda>s. s) (js ''quota'')) =
   Inr [\<lparr>log_timestamp = (), log_level = JString (js ''ERROR''),
                log_phase = JString (js ''APPLYING''),
                log_message = JString (js ''quota exceeded''), log_details = ()\<rparr>]"
  by (simp add: filterByLevel_def filterByPhase_def filterBySearch_def search_matches_def
      and_then_def js_def ch_def)

theorem log_filtering_is_a_projection_witness:
  "applyFilters (\<lambda>s. s) (\<lambda>s. s)
     \<lparr>logs = [\<lparr>log_timestamp = (), log_level = JString (js ''ERROR''),
                log_phase = JString (js ''APPLYING''),
                log_message = JString (js ''quota exceeded''), log_details = ()\<rparr>,
              \<lparr>log_timestamp = (), log_level = JString (js ''INFO''),
                log_phase = JString (js ''PLANNING''),
                log_message = JString (js ''plan ready''), log_details = ()\<rparr> :: (unit, unit, unit jsval, unit) log_entry],
      filteredLogs = [], levelFilter = js ''ERROR'', phaseFilter = js ''ALL'',
      searchQuery = js ''quota'', eventSourceClosed = False\<rparr> =
   Inr \<lparr>logs = [\<lparr>log_timestamp = (), log_level = JString (js ''ERROR''),
                log_phase = JString (js ''APPLYING''),
                log_message = JString (js ''quota exceeded''), log_details = ()\<rparr>,
              \<lparr>log_timestamp = (), log_level = JString (js ''INFO''),
                log_phase = JString (js ''PLANNING''),
                log_message = JString (js ''plan ready''), log_details = ()\<rparr> :: (unit, unit, unit jsval, unit) log_entry],
      filteredLogs = [\<lparr>log_timestamp = (), log_level = JString (js ''ERROR''),
                log_phase = JString (js ''APPLYING''),
                log_message = JString (js ''quota exceeded''), log_details = ()\<rparr>], levelFilter = js ''ERROR'', phaseFilter = js ''ALL'',
      searchQuery = js ''quota'', eventSourceClosed = False\<rparr> \<and>
   and_then (and_then (filterBySearch (\<lambda>s. s) (js ''quota'') [\<lparr>log_timestamp = (), log_level = JString (js ''ERROR''),
                log_phase = JString (js ''APPLYING''),
                log_message = JString (js ''quota exceeded''), log_details = ()\<rparr>,
              \<lparr>log_timestamp = (), log_level = JString (js ''INFO''),
                log_phase = JString (js ''PLANNING''),
                log_message = JString (js ''plan ready''), log_details = ()\<rparr> :: (unit, unit, unit jsval, unit) log_entry])
       (filterByPhase (\<lambda>s. s) (js ''ALL'')))
     (filterByLevel (js ''ERROR'')) =
   Inr [\<lparr>log_timestamp = (), log_level = JString (js ''ERROR''),
                log_phase = JString (js ''APPLYING''),
                log_message = JString (js ''quota exceeded''), log_details = ()\<rparr>]"
proof -
  note t = log_filtering_is_a_projection [where toLowerCase = "\<lambda>s. s"
      and toUpperCase = "\<lambda>s. s"
      and xs = "[\<lparr>log_timestamp = (), log_level = JString (js ''ERROR''),
                log_phase = JString (js ''APPLYING''),
                log_message = JString (js ''quota exceeded''), log_details = ()\<rparr>,
              \<lparr>log_timestamp = (), log_level = JString (js ''INFO''),
                log_phase = JString (js ''PLANNING''),
                log_message = JString (js ''plan ready''), log_details = ()\<rparr> :: (unit, unit, unit jsval, unit) log_entry]"
      and v = "\<lparr>logs = [\<lparr>log_timestamp = (), log_level = JString (js ''ERROR''),
                log_phase = JString (js ''APPLYING''),
                log_message = JString (js ''quota exceeded''), log_details = ()\<rparr>,
              \<lparr>log_timestamp = (), log_level = JString (js ''INFO''),
                log_phase = JString (js ''PLANNING''),
                log_message = JString (js ''plan ready''), log_details = ()\<rparr> :: (unit, unit, unit jsval, unit) log_entry],
      filteredLogs = [], levelFilter = js ''ERROR'', phaseFilter = js ''ALL'',
      searchQuery = js ''quota'', eventSourceClosed = False\<rparr>"]
  from t [THEN conjunct1] have a: "applyFilters (\<lambda>s. s) (\<lambda>s. s)
     \<lparr>logs = [\<lparr>log_timestamp = (), log_level = JString (js ''ERROR''),
                log_phase = JString (js ''APPLYING''),
                log_message = JString (js ''quota exceeded''), log_details = ()\<rparr>,
              \<lparr>log_timestamp = (), log_level = JString (js ''INFO''),
                log_phase = JString (js ''PLANNING''),
                log_message = JString (js ''plan ready''), log_details = ()\<rparr> :: (unit, unit, unit jsval, unit) log_entry],
      filteredLogs = [], levelFilter = js ''ERROR'', phaseFilter = js ''ALL'',
      searchQuery = js ''quota'', eventSourceClosed = False\<rparr> =
   Inr \<lparr>logs = [\<lparr>log_timestamp = (), log_level = JString (js ''ERROR''),
                log_phase = JString (js ''APPLYING''),
                log_message = JString (js ''quota exceeded''), log_details = ()\<rparr>,
              \<lparr>log_timestamp = (), log_level = JString (js ''INFO''),
                log_phase = JString (js ''PLANNING''),
                log_message = JString (js ''plan ready''), log_details = ()\<rparr> :: (unit, unit, unit jsval, unit) log_entry],
      filteredLogs = [\<lparr>log_timestamp = (), log_level = JString (js ''ERROR''),
                log_phase = JString (js ''APPLYING''),
                log_message = JString (js ''quota exceeded''), log_details = ()\<rparr>], levelFilter = js ''ERROR'', phaseFilter = js ''ALL'',
      searchQuery = js ''quota'', eventSourceClosed = False\<rparr>"
    by (simp add: example_logs_filtered) (simp add: and_then_def)
  from t [THEN conjunct2, THEN conjunct2, THEN conjunct2, THEN conjunct2, THEN conjunct2,
      THEN conjunct2, THEN mp, OF example_logs_string_fields]
  have b: "and_then (and_then (filterBySearch (\<lambda>s. s) (js ''quota'') [\<lparr>log_timestamp = (), log_level = JString (js ''ERROR''),
                log_phase = JString (js ''APPLYING''),
                log_message = JString (js ''quota exceeded''), log_details = ()\<rparr>,
              \<lparr>log_timestamp = (), log_level = JString (js ''INFO''),
                log_phase = JString (js ''PLANNING''),
                log_message = JString (js ''plan ready''), log_details = ()\<rparr> :: (unit, unit, unit jsval, unit) log_entry])
       (filterByPhase (\<lambda>s. s) (js ''ALL'')))
     (filterByLevel (js ''ERROR'')) =
   Inr [\<lparr>log_timestamp = (), log_level = JString (js ''ERROR''),
                log_phase = JString (js ''APPLYING''),
                log_message = JString (js ''quota exceeded''), log_details = ()\<rparr>]"
    by (simp add: example_logs_filtered)
  from a b show ?thesis by (rule conjI)
qed

text \<open>
  The claim as written, for every accumulated list, fails on an entry whose message is not
  a string. An event of type \<open>log\<close> without a message appends an entry whose message is
  \<open>undefined\<close>, while its level and phase get their defaults. With the level filter
  \<open>ERROR\<close> and the search query \<open>x\<close>, the level step before the search step gives the
  empty list; the search step before the level step calls \<open>toLowerCase\<close> on \<open>undefined\<close>
  and throws. So the order of the two steps changes the result, whatever the case mapping
  is.
\<close>

theorem log_filtering_undefined_message_counterexample:
  "logs (onmessage
      \<lparr>data_type = Some (js ''log''), data_timestamp = (), data_level = JUndefined,
       data_phase = JUndefined, data_message = (JUndefined :: unit jsval), data_details = ()\<rparr>
      \<lparr>logs = [], filteredLogs = [], levelFilter = js ''ERROR'', phaseFilter = js ''ALL'',
       searchQuery = js ''x'', eventSourceClosed = False\<rparr>) =
     [\<lparr>log_timestamp = (), log_level = JString (js ''INFO''),
        log_phase = JString (js ''unknown''), log_message = (JUndefined :: unit jsval),
        log_details = ()\<rparr>] \<and>
   (\<forall>toLowerCase.
      and_then (filterByLevel (js ''ERROR'')
          [\<lparr>log_timestamp = (), log_level = JString (js ''INFO''),
        log_phase = JString (js ''unknown''), log_message = (JUndefined :: unit jsval),
        log_details = ()\<rparr>])
        (filterBySearch toLowerCase (js ''x'')) = Inr [] \<and>
      and_then (filterBySearch toLowerCase (js ''x'')
          [\<lparr>log_timestamp = (), log_level = JString (js ''INFO''),
        log_phase = JString (js ''unknown''), log_message = (JUndefined :: unit jsval),
        log_details = ()\<rparr>])
        (filterByLevel (js ''ERROR'')) = Inl TypeError)"
proof -
  have ne: "js ''INFO'' \<noteq> js ''ERROR''" "js ''ERROR'' \<noteq> js ''ALL''" "js ''x'' \<noteq> []"
    by (simp_all add: js_def ch_def)
  show ?thesis
    using ne
    by (simp add: onmessage_def filterByLevel_def filterBySearch_def search_matches_def
        and_then_def)
qed

text \<open>
  Claim C10. An event of type \<open>log\<close> appends one entry that carries the event's
  timestamp, message and details, the event's level (\<open>INFO\<close> when it has none) and the
  event's phase (\<open>unknown\<close> when it has none), and it does not close the event source. An
  event of type \<open>complete\<close> or \<open>done\<close> appends nothing and closes the event source. A
  level or phase that is present is kept, except that the empty string and the other falsy
  values get the default too.
\<close>

theorem log_event_is_appended:
  "(data_type data = Some (js ''log'') \<longrightarrow>
      logs (onmessage data v) = logs v @
        [\<lparr>log_timestamp = data_timestamp data,
          log_level = (case data_level data of
                         JUndefined \<Rightarrow> JString (js ''INFO'')
                       | JString l \<Rightarrow> if l = [] then JString (js ''INFO'') else JString l
                       | JFalsy x \<Rightarrow> JString (js ''INFO'')
                       | JTruthy x \<Rightarrow> JTruthy x),
          log_phase = (case data_phase data of
                         JUndefined \<Rightarrow> JString (js ''unknown'')
                       | JString p \<Rightarrow> if p = [] then JString (js ''unknown'') else JString p
                       | JFalsy x \<Rightarrow> JString (js ''unknown'')
                       | JTruthy x \<Rightarrow> JTruthy x),
          log_message = data_message data,
          log_details = data_details data\<rparr>] \<and>
      eventSourceClosed (onmessage data v) = eventSourceClosed v) \<and>
   (data_type data = Some (js ''complete'') \<or> data_type data = Some (js ''done'') \<longrightarrow>
      logs (onmessage data v) = logs v \<and> eventSourceClosed (onmessage data v))"
proof -
  have ne: "js ''complete'' \<noteq> js ''log''" "js ''done'' \<noteq> js ''log''"
    by (simp_all add: js_def)
  show ?thesis
    using ne by (cases "data_level data"; cases "data_phase data") (auto simp: onmessage_def)
qed

theorem log_event_is_appended_witness:
  "logs (onmessage
      \<lparr>data_type = Some (js ''log''), data_timestamp = js ''t1'',
       data_level = (JUndefined :: unit jsval),
       data_phase = JUndefined, data_message = js ''started'', data_details = ()\<rparr>
      \<lparr>logs = [], filteredLogs = [], levelFilter = js ''ALL'', phaseFilter = js ''ALL'',
       searchQuery = [], eventSourceClosed = False\<rparr>) =
     [\<lparr>log_timestamp = js ''t1'', log_level = JString (js ''INFO''),
       log_phase = JString (js ''unknown''),
       log_message = js ''started'', log_details = ()\<rparr>] \<and>
   eventSourceClosed (onmessage
      \<lparr>data_type = Some (js ''done''), data_timestamp = js ''t2'',
       data_level = (JUndefined :: unit jsval),
       data_phase = JUndefined, data_message = js '''', data_details = ()\<rparr>
      \<lparr>logs = [], filteredLogs = [], levelFilter = js ''ALL'', phaseFilter = js ''ALL'',
       searchQuery = [], eventSourceClosed = False\<rparr>) \<and>
   logs (onmessage
      \<lparr>data_type = Some (js ''done''), data_timestamp = js ''t2'',
       data_level = (JUndefined :: unit jsval),
       data_phase = JUndefined, data_message = js '''', data_details = ()\<rparr>
      \<lparr>logs = [], filteredLogs = [], levelFilter = js ''ALL'', phaseFilter = js ''ALL'',
       searchQuery = [], eventSourceClosed = False\<rparr>) = []"
  using log_event_is_appended [of
      "\<lparr>data_type = Some (js ''log''), data_timestamp = js ''t1'',
       data_level = (JUndefined :: unit jsval),
       data_phase = JUndefined, data_message = js ''started'', data_details = ()\<rparr>"
      "\<lparr>logs = [], filteredLogs = [], levelFilter = js ''ALL'', phaseFilter = js ''ALL'',
       searchQuery = [], eventSourceClosed = False\<rparr>"]
    log_event_is_appended [of
      "\<lparr>data_type = Some (js ''done''), data_timestamp = js ''t2'',
       data_level = (JUndefined :: unit jsval),
       data_phase = JUndefined, data_message = js '''', data_details = ()\<rparr>"
      "\<lparr>logs = [], filteredLogs = [], levelFilter = js ''ALL'', phaseFilter = js ''ALL'',
       searchQuery = [], eventSourceClosed = False\<rparr>"]
  by simp

section \<open>Properties: the deployment payload\<close>

lemma handleDeploy_Inr_iff:
  "(\<exists>payload. handleDeploy JSON_parse storage t fd = Inr payload) \<longleftrightarrow>
     first_truthy [fd_resource_group fd, fd_resource_group_name fd] \<noteq> [] \<or>
     (\<exists>p. providerTypeOf t = ProviderString p)"
  by (cases "providerTypeOf t") (auto simp: handleDeploy_def Let_def)

lemma handleDeploy_subscription_id:
  assumes "handleDeploy JSON_parse storage t fd = Inr payload"
  shows "payload_subscription_id payload =
     (let c = customSubscriptionIdOf JSON_parse (savedSettingsOf storage) (providerTypeOf t)
      in if falsy c then None else c)"
  using assms by (auto simp: handleDeploy_def Let_def split: sum.splits if_splits)

lemma customSubscriptionIdOf_stored:
  "customSubscriptionIdOf JSON_parse (savedSettingsOf storage) pt =
     (case stored_settings JSON_parse storage of
        None \<Rightarrow> None
      | Some settings \<Rightarrow>
          if provider_includes pt (js ''azure'') \<and>
             (case azure settings of Some a \<Rightarrow> azure_mode a = Some (js ''custom'') | None \<Rightarrow> False)
          then (case azure settings of Some a \<Rightarrow> subscriptionId a | None \<Rightarrow> None)
          else if provider_includes pt (js ''gcp'') \<and>
             (case gcp settings of Some g \<Rightarrow> gcp_mode g = Some (js ''custom'') | None \<Rightarrow> False)
          then (case gcp settings of Some g \<Rightarrow> projectId g | None \<Rightarrow> None)
          else None)"
  by (cases pt; cases "savedSettingsOf storage")
     (auto simp: customSubscriptionIdOf_def stored_settings_def provider_includes_def
           split: option.splits)

lemma falsy_iff: "falsy x \<longleftrightarrow> x = None \<or> x = Some []"
  by (cases x) auto

text \<open>
  Claim C5, as the code has it. The code looks at the azure settings when the provider type
  includes \<open>azure\<close> and azure's mode is \<open>custom\<close>, and at the gcp settings only
  otherwise. So let \<open>handleDeploy\<close> submit a payload for a provider type that does not
  include both names. If the stored settings hold a custom credential for the provider, the
  payload's \<open>subscription_id\<close> is that credential; if they hold none (or nothing is
  stored, or the stored text does not parse), the payload has no \<open>subscription_id\<close> key.
\<close>

theorem custom_credential_decides_subscription_id:
  assumes "handleDeploy JSON_parse storage selectedTemplate formData = Inr payload"
    and "\<not> (provider_includes (providerTypeOf selectedTemplate) (js ''azure'') \<and>
            provider_includes (providerTypeOf selectedTemplate) (js ''gcp''))"
  shows "(\<forall>settings c. stored_settings JSON_parse storage = Some settings \<and>
            has_custom_credential settings (providerTypeOf selectedTemplate) c \<longrightarrow>
            payload_subscription_id payload = Some c) \<and>
         ((\<forall>settings c. stored_settings JSON_parse storage = Some settings \<longrightarrow>
            \<not> has_custom_credential settings (providerTypeOf selectedTemplate) c) \<longrightarrow>
            payload_subscription_id payload = None)"
  unfolding handleDeploy_subscription_id [OF assms(1)] customSubscriptionIdOf_stored Let_def
  using assms(2)
  by (cases "stored_settings JSON_parse storage")
     (auto simp: has_custom_credential_def falsy_iff split: option.splits if_splits)

lemma providerTypeOf_azure:
  "providerTypeOf \<lparr>template_name = js ''storage-account'', cloud_provider = Some (js ''azure'')\<rparr> =
     ProviderString (js ''terraform-azure'')"
  by (simp add: providerTypeOf_def get_property_def providerTypeMap_def js_def ch_def)

lemma includes_terraform_azure:
  "str_includes (js ''terraform-azure'') (js ''azure'')"
  "\<not> str_includes (js ''terraform-azure'') (js ''gcp'')"
  by (simp_all add: js_def ch_def)

lemma handleDeploy_azure_example:
  "handleDeploy
      (\<lambda>text. Some \<lparr>azure = Some \<lparr>azure_mode = Some (js ''custom''),
                                    subscriptionId = Some (js ''sub-1'')\<rparr>,
                      gcp = None\<rparr>)
      \<lparr>session_cloudCredentials = None, local_cloudCredentials = Some (js ''{...}'')\<rparr>
      \<lparr>template_name = js ''storage-account'', cloud_provider = Some (js ''azure'')\<rparr>
      \<lparr>fd_subscription_id = None, fd_project_id = None, fd_resource_group = Some (js ''rg1''),
       fd_resource_group_name = None, fd_location = Some (js ''westeurope''), fd_region = None,
       fd_zone = None, fd_templateParameters = ()\<rparr> =
    Inr \<lparr>payload_provider_type = ProviderString (js ''terraform-azure''),
         payload_template_name = js ''storage-account'',
         payload_subscription_id = Some (js ''sub-1''),
         payload_resource_group = js ''rg1'',
         payload_location = js ''westeurope'',
         payload_parameters = ()\<rparr>"
  unfolding handleDeploy_def providerTypeOf_azure Let_def
  by (simp add: savedSettingsOf_def customSubscriptionIdOf_def includes_terraform_azure)
     (simp add: js_def)

theorem custom_credential_decides_subscription_id_witness:
  "handleDeploy
      (\<lambda>text. Some \<lparr>azure = Some \<lparr>azure_mode = Some (js ''custom''),
                                    subscriptionId = Some (js ''sub-1'')\<rparr>,
                      gcp = None\<rparr>)
      \<lparr>session_cloudCredentials = None, local_cloudCredentials = Some (js ''{...}'')\<rparr>
      \<lparr>template_name = js ''storage-account'', cloud_provider = Some (js ''azure'')\<rparr>
      \<lparr>fd_subscription_id = None, fd_project_id = None, fd_resource_group = Some (js ''rg1''),
       fd_resource_group_name = None, fd_location = Some (js ''westeurope''), fd_region = None,
       fd_zone = None, fd_templateParameters = ()\<rparr> =
    Inr \<lparr>payload_provider_type = ProviderString (js ''terraform-azure''),
         payload_template_name = js ''storage-account'',
         payload_subscription_id = Some (js ''sub-1''),
         payload_resource_group = js ''rg1'',
         payload_location = js ''westeurope'',
         payload_parameters = ()\<rparr> \<and>
   has_custom_credential
      \<lparr>azure = Some \<lparr>azure_mode = Some (js ''custom''), subscriptionId = Some (js ''sub-1'')\<rparr>,
       gcp = None\<rparr>
      (providerTypeOf \<lparr>template_name = js ''storage-account'', cloud_provider = Some (js ''azure'')\<rparr>)
      (js ''sub-1'')"
proof -
  have np: "\<not> (provider_includes (providerTypeOf \<lparr>template_name = js ''storage-account'',
                cloud_provider = Some (js ''azure'')\<rparr>) (js ''azure'') \<and>
            provider_includes (providerTypeOf \<lparr>template_name = js ''storage-account'',
                cloud_provider = Some (js ''azure'')\<rparr>) (js ''gcp''))"
    by (simp add: providerTypeOf_azure provider_includes_def includes_terraform_azure)
  have hc: "has_custom_credential
      \<lparr>azure = Some \<lparr>azure_mode = Some (js ''custom''), subscriptionId = Some (js ''sub-1'')\<rparr>,
       gcp = None\<rparr>
      (providerTypeOf \<lparr>template_name = js ''storage-account'', cloud_provider = Some (js ''azure'')\<rparr>)
      (js ''sub-1'')"
    by (simp add: has_custom_credential_def providerTypeOf_azure provider_includes_def
        includes_terraform_azure) (simp add: js_def)
  have st: "stored_settings
      (\<lambda>text. Some \<lparr>azure = Some \<lparr>azure_mode = Some (js ''custom''),
                                    subscriptionId = Some (js ''sub-1'')\<rparr>,
                      gcp = None\<rparr>)
      \<lparr>session_cloudCredentials = None, local_cloudCredentials = Some (js ''{...}'')\<rparr> =
      Some \<lparr>azure = Some \<lparr>azure_mode = Some (js ''custom''), subscriptionId = Some (js ''sub-1'')\<rparr>,
       gcp = None\<rparr>"
    by (simp add: stored_settings_def savedSettingsOf_def js_def)
  from custom_credential_decides_subscription_id [OF handleDeploy_azure_example np,
      THEN conjunct1, THEN spec, THEN spec, THEN mp, OF conjI, OF st hc]
  have "payload_subscription_id
     \<lparr>payload_provider_type = ProviderString (js ''terraform-azure''),
         payload_template_name = js ''storage-account'',
         payload_subscription_id = Some (js ''sub-1''),
         payload_resource_group = js ''rg1'',
         payload_location = js ''westeurope'',
         payload_parameters = ()\<rparr> = Some (js ''sub-1'')" .
  with handleDeploy_azure_example hc show ?thesis by simp
qed

lemma providerTypeOf_azure_gcp:
  "providerTypeOf \<lparr>template_name = js ''multi-cloud'', cloud_provider = Some (js ''azure-gcp'')\<rparr> =
     ProviderString (js ''azure-gcp'')"
  by (simp add: providerTypeOf_def get_property_def providerTypeMap_def objectPrototypeKeys_def
      js_def ch_def)

lemma includes_azure_gcp:
  "str_includes (js ''azure-gcp'') (js ''azure'')"
  "str_includes (js ''azure-gcp'') (js ''gcp'')"
  by (simp_all add: js_def ch_def)

text \<open>
  The claim as written, for every provider type, fails on a provider type that includes
  both names: for the provider \<open>azure-gcp\<close>, with azure's mode \<open>custom\<close> and no
  \<open>subscriptionId\<close>, and gcp's mode \<open>custom\<close> with the \<open>projectId\<close> \<open>proj-1\<close>, the
  stored settings hold a custom credential for the provider, yet the \<open>else if\<close> for gcp is
  never reached and the payload has no \<open>subscription_id\<close>.
\<close>

theorem custom_credential_two_providers_counterexample:
  "handleDeploy
      (\<lambda>text. Some \<lparr>azure = Some \<lparr>azure_mode = Some (js ''custom''), subscriptionId = None\<rparr>,
                      gcp = Some \<lparr>gcp_mode = Some (js ''custom''),
                                  projectId = Some (js ''proj-1'')\<rparr>\<rparr>)
      \<lparr>session_cloudCredentials = None, local_cloudCredentials = Some (js ''{...}'')\<rparr>
      \<lparr>template_name = js ''multi-cloud'', cloud_provider = Some (js ''azure-gcp'')\<rparr>
      \<lparr>fd_subscription_id = None, fd_project_id = None, fd_resource_group = Some (js ''rg1''),
       fd_resource_group_name = None, fd_location = Some (js ''westeurope''), fd_region = None,
       fd_zone = None, fd_templateParameters = ()\<rparr> =
    Inr \<lparr>payload_provider_type = ProviderString (js ''azure-gcp''),
         payload_template_name = js ''multi-cloud'',
         payload_subscription_id = None,
         payload_resource_group = js ''rg1'',
         payload_location = js ''westeurope'',
         payload_parameters = ()\<rparr> \<and>
   stored_settings
      (\<lambda>text. Some \<lparr>azure = Some \<lparr>azure_mode = Some (js ''custom''), subscriptionId = None\<rparr>,
                      gcp = Some \<lparr>gcp_mode = Some (js ''custom''),
                                  projectId = Some (js ''proj-1'')\<rparr>\<rparr>)
      \<lparr>session_cloudCredentials = None, local_cloudCredentials = Some (js ''{...}'')\<rparr> =
    Some \<lparr>azure = Some \<lparr>azure_mode = Some (js ''custom''), subscriptionId = None\<rparr>,
          gcp = Some \<lparr>gcp_mode = Some (js ''custom''), projectId = Some (js ''proj-1'')\<rparr>\<rparr> \<and>
   has_custom_credential
      \<lparr>azure = Some \<lparr>azure_mode = Some (js ''custom''), subscriptionId = None\<rparr>,
       gcp = Some \<lparr>gcp_mode = Some (js ''custom''), projectId = Some (js ''proj-1'')\<rparr>\<rparr>
      (providerTypeOf \<lparr>template_name = js ''multi-cloud'', cloud_provider = Some (js ''azure-gcp'')\<rparr>)
      (js ''proj-1'')"
proof (intro conjI)
  show "handleDeploy
      (\<lambda>text. Some \<lparr>azure = Some \<lparr>azure_mode = Some (js ''custom''), subscriptionId = None\<rparr>,
                      gcp = Some \<lparr>gcp_mode = Some (js ''custom''),
                                  projectId = Some (js ''proj-1'')\<rparr>\<rparr>)
      \<lparr>session_cloudCredentials = None, local_cloudCredentials = Some (js ''{...}'')\<rparr>
      \<lparr>template_name = js ''multi-cloud'', cloud_provider = Some (js ''azure-gcp'')\<rparr>
      \<lparr>fd_subscription_id = None, fd_project_id = None, fd_resource_group = Some (js ''rg1''),
       fd_resource_group_name = None, fd_location = Some (js ''westeurope''), fd_region = None,
       fd_zone = None, fd_templateParameters = ()\<rparr> =
    Inr \<lparr>payload_provider_type = ProviderString (js ''azure-gcp''),
         payload_template_name = js ''multi-cloud'',
         payload_subscription_id = None,
         payload_resource_group = js ''rg1'',
         payload_location = js ''westeurope'',
         payload_parameters = ()\<rparr>"
    unfolding handleDeploy_def providerTypeOf_azure_gcp Let_def
    by (simp add: savedSettingsOf_def customSubscriptionIdOf_def includes_azure_gcp)
       (simp add: js_def)
  show "stored_settings
      (\<lambda>text. Some \<lparr>azure = Some \<lparr>azure_mode = Some (js ''custom''), subscriptionId = None\<rparr>,
                      gcp = Some \<lparr>gcp_mode = Some (js ''custom''),
                                  projectId = Some (js ''proj-1'')\<rparr>\<rparr>)
      \<lparr>session_cloudCredentials = None, local_cloudCredentials = Some (js ''{...}'')\<rparr> =
    Some \<lparr>azure = Some \<lparr>azure_mode = Some (js ''custom''), subscriptionId = None\<rparr>,
          gcp = Some \<lparr>gcp_mode = Some (js ''custom''), projectId = Some (js ''proj-1'')\<rparr>\<rparr>"
    by (simp add: stored_settings_def savedSettingsOf_def js_def)
  show "has_custom_credential
      \<lparr>azure = Some \<lparr>azure_mode = Some (js ''custom''), subscriptionId = None\<rparr>,
       gcp = Some \<lparr>gcp_mode = Some (js ''custom''), projectId = Some (js ''proj-1'')\<rparr>\<rparr>
      (providerTypeOf \<lparr>template_name = js ''multi-cloud'', cloud_provider = Some (js ''azure-gcp'')\<rparr>)
      (js ''proj-1'')"
    by (simp add: has_custom_credential_def providerTypeOf_azure_gcp provider_includes_def
        includes_azure_gcp) (simp add: js_def)
qed

lemma first_truthy_falsy2: "falsy a \<Longrightarrow> falsy b \<Longrightarrow> first_truthy [a, b] = []"
  by (cases a; cases b) auto

text \<open>
  Claim C9. The form supplies neither \<open>resource_group\<close> nor \<open>resource_group_name\<close>
  (each absent or empty). For a provider type that includes \<open>gcp\<close>, \<open>handleDeploy\<close>
  submits a payload whose \<open>resource_group\<close> is \<open>default\<close>; for any other provider type
  (a string without \<open>gcp\<close>), it submits a payload whose \<open>resource_group\<close> is the empty
  string.
\<close>

theorem gcp_resource_group_defaults:
  assumes "falsy (fd_resource_group formData)" and "falsy (fd_resource_group_name formData)"
  shows "(\<forall>p. providerTypeOf selectedTemplate = ProviderString p \<and> str_includes p (js ''gcp'') \<longrightarrow>
            (\<exists>payload. handleDeploy JSON_parse storage selectedTemplate formData = Inr payload \<and>
               payload_resource_group payload = js ''default'')) \<and>
         (\<forall>p. providerTypeOf selectedTemplate = ProviderString p \<and> \<not> str_includes p (js ''gcp'') \<longrightarrow>
            (\<exists>payload. handleDeploy JSON_parse storage selectedTemplate formData = Inr payload \<and>
               payload_resource_group payload = []))"
  using first_truthy_falsy2 [OF assms]
  by (simp add: handleDeploy_def Let_def)

lemma providerTypeOf_gcp:
  "providerTypeOf \<lparr>template_name = js ''compute-instance'', cloud_provider = Some (js ''gcp'')\<rparr> =
     ProviderString (js ''terraform-gcp'')"
  by (simp add: providerTypeOf_def get_property_def providerTypeMap_def js_def ch_def)

lemma includes_terraform_gcp: "str_includes (js ''terraform-gcp'') (js ''gcp'')"
  by (simp add: js_def ch_def)

theorem gcp_resource_group_defaults_witness:
  "handleDeploy (\<lambda>text. None)
        \<lparr>session_cloudCredentials = None, local_cloudCredentials = None\<rparr>
        \<lparr>template_name = js ''compute-instance'', cloud_provider = Some (js ''gcp'')\<rparr>
        \<lparr>fd_subscription_id = None, fd_project_id = None, fd_resource_group = None,
         fd_resource_group_name = Some [], fd_location = None, fd_region = Some (js ''us-central1''),
         fd_zone = None, fd_templateParameters = ()\<rparr> =
     Inr \<lparr>payload_provider_type = ProviderString (js ''terraform-gcp''),
          payload_template_name = js ''compute-instance'', payload_subscription_id = None,
          payload_resource_group = js ''default'', payload_location = js ''us-central1'',
          payload_parameters = ()\<rparr> \<and>
   handleDeploy (\<lambda>text. None)
        \<lparr>session_cloudCredentials = None, local_cloudCredentials = None\<rparr>
        \<lparr>template_name = js ''storage-account'', cloud_provider = Some (js ''azure'')\<rparr>
        \<lparr>fd_subscription_id = None, fd_project_id = None, fd_resource_group = None,
         fd_resource_group_name = Some [], fd_location = None, fd_region = Some (js ''us-central1''),
         fd_zone = None, fd_templateParameters = ()\<rparr> =
     Inr \<lparr>payload_provider_type = ProviderString (js ''terraform-azure''),
          payload_template_name = js ''storage-account'', payload_subscription_id = None,
          payload_resource_group = [], payload_location = js ''us-central1'',
          payload_parameters = ()\<rparr>"
  using gcp_resource_group_defaults [of
        "\<lparr>fd_subscription_id = None, fd_project_id = None, fd_resource_group = None,
         fd_resource_group_name = Some [], fd_location = None, fd_region = Some (js ''us-central1''),
         fd_zone = None, fd_templateParameters = ()\<rparr>"
        "\<lparr>template_name = js ''compute-instance'', cloud_provider = Some (js ''gcp'')\<rparr>"
        "\<lambda>text. None" "\<lparr>session_cloudCredentials = None, local_cloudCredentials = None\<rparr>"]
     gcp_resource_group_defaults [of
        "\<lparr>fd_subscription_id = None, fd_project_id = None, fd_resource_group = None,
         fd_resource_group_name = Some [], fd_location = None, fd_region = Some (js ''us-central1''),
         fd_zone = None, fd_templateParameters = ()\<rparr>"
        "\<lparr>template_name = js ''storage-account'', cloud_provider = Some (js ''azure'')\<rparr>"
        "\<lambda>text. None" "\<lparr>session_cloudCredentials = None, local_cloudCredentials = None\<rparr>"]
  unfolding handleDeploy_def providerTypeOf_gcp providerTypeOf_azure Let_def
  by (simp add: includes_terraform_gcp includes_terraform_azure savedSettingsOf_def
      customSubscriptionIdOf_def)

section \<open>Properties: role permissions\<close>

lemma permissions_nested:
  "getRolePermissions (js ''viewer'') = PermissionList [js ''read'']"
  "getRolePermissions (js ''user'') = PermissionList [js ''read'', js ''write'']"
  "getRolePermissions (js ''admin'') =
     PermissionList [js ''read'', js ''write'', js ''delete'', js ''manage_users'']"
  "set [js ''read''] \<subseteq> set [js ''read'', js ''write'']"
  "set [js ''read'', js ''write''] \<subseteq> set [js ''read'', js ''write'', js ''delete'', js ''manage_users'']"
  by (simp_all add: getRolePermissions_def get_property_def permissions_def js_def ch_def)

lemma unknown_role_without_prototype_key:
  assumes "role \<notin> {js ''admin'', js ''user'', js ''viewer''}" and "role \<notin> set objectPrototypeKeys"
  shows "getRolePermissions role = PermissionList []"
  using assms by (simp add: getRolePermissions_def get_property_def permissions_def)

text \<open>
  Claim C6 at the role \<open>constructor\<close>, which is none of \<open>admin\<close>, \<open>user\<close>, \<open>viewer\<close>: the
  lookup finds the member that the object literal inherits, so \<open>getRolePermissions\<close>
  returns it and not the empty list. The nesting of the three permission lists, and the
  empty list for every other role that names no inherited member, are the two lemmas
  above.
\<close>

theorem getRolePermissions_constructor:
  "getRolePermissions (js ''constructor'') = PrototypeMember (js ''constructor'') \<and>
   js ''constructor'' \<notin> {js ''admin'', js ''user'', js ''viewer''} \<and>
   getRolePermissions (js ''constructor'') \<noteq> PermissionList []"
  by (simp add: getRolePermissions_def get_property_def permissions_def objectPrototypeKeys_def
      js_def ch_def)

section \<open>Properties: collecting the parameters of the form\<close>

lemma collect_input_other:
  "input_name i \<noteq> n \<Longrightarrow> collect_input P m i n = m n"
  by (auto simp: collect_input_def assign_def Let_def split: option.splits)

lemma collect_input_tags:
  assumes "input_name i = js ''tags''"
  shows "collect_input P m i (js ''tags'') =
     Some (let tagsValue = trim (input_value i)
           in if tagsValue \<noteq> [] \<and> startsWith tagsValue (js ''{'') \<and> endsWith tagsValue (js ''}'')
              then (case P tagsValue of Some v \<Rightarrow> PParsed v | None \<Rightarrow> PEmptyObject)
              else PEmptyObject)"
proof -
  have "js ''tags'' \<noteq> []" and "js ''tags'' \<noteq> js ''__proto__''" by (simp_all add: js_def)
  then show ?thesis
    using assms by (simp add: collect_input_def assign_def Let_def split: option.splits)
qed

lemma collect_input_text:
  assumes "input_name i \<noteq> js ''tags''" and "input_name i \<noteq> []"
    and "input_name i \<noteq> js ''__proto__''"
  shows "collect_input P m i (input_name i) = Some (PStr (input_value i))"
  using assms by (simp add: collect_input_def assign_def)

lemma foldl_collect_input:
  assumes "distinct (map input_name inputs)" and "i \<in> set inputs" and "input_name i \<noteq> []"
    and "input_name i \<noteq> js ''__proto__''"
  shows "foldl (collect_input P) m inputs (input_name i) =
         collect_input P Map.empty i (input_name i)"
  using assms
proof (induction inputs rule: rev_induct)
  case Nil
  then show ?case by simp
next
  case (snoc x xs)
  show ?case
  proof (cases "i = x")
    case True
    then show ?thesis
      using snoc.prems(3,4)
      by (cases "input_name x = js ''tags''") (simp_all add: collect_input_tags collect_input_text)
  next
    case False
    with snoc.prems have i: "i \<in> set xs" and d: "distinct (map input_name xs)"
      and ne: "input_name x \<noteq> input_name i"
      by auto
    show ?thesis
      using snoc.IH [OF d i snoc.prems(3,4)] by (simp add: collect_input_other [OF ne])
  qed
qed

lemma collectParameters_form:
  assumes "parametersForm doc = Some inputs" and "distinct (map input_name inputs)"
    and "i \<in> set inputs" and "input_name i \<noteq> []" and "input_name i \<noteq> js ''__proto__''"
  shows "collectParameters P doc (input_name i) = collect_input P Map.empty i (input_name i)"
  using assms(1) foldl_collect_input [OF assms(2,3,4,5)]
  by (simp add: collectParameters_def Let_def)

text \<open>
  Claim C7, as the code has it. The controls of the form have distinct names. For the
  control named \<open>tags\<close>, a text that is blank, is not enclosed in braces, or that
  \<open>JSON.parse\<close> rejects is collected as the empty object. Every other named control (but one named \<open>__proto__\<close>, which stores nothing)
  is collected as its text, unparsed: this includes the JSON editors of array and object
  parameters.
\<close>

theorem only_tags_fall_back_to_empty_object:
  assumes "parametersForm doc = Some inputs" and "distinct (map input_name inputs)"
    and "input \<in> set inputs" and "input_name input \<noteq> []"
    and "input_name input \<noteq> js ''__proto__''"
  shows "(input_name input = js ''tags'' \<and>
            (trim (input_value input) = [] \<or>
             \<not> startsWith (trim (input_value input)) (js ''{'') \<or>
             \<not> endsWith (trim (input_value input)) (js ''}'') \<or>
             JSON_parse (trim (input_value input)) = None) \<longrightarrow>
            collectParameters JSON_parse doc (js ''tags'') = Some PEmptyObject) \<and>
         (input_name input \<noteq> js ''tags'' \<longrightarrow>
            collectParameters JSON_parse doc (input_name input) = Some (PStr (input_value input)))"
proof (intro conjI impI)
  assume a: "input_name input = js ''tags'' \<and>
            (trim (input_value input) = [] \<or>
             \<not> startsWith (trim (input_value input)) (js ''{'') \<or>
             \<not> endsWith (trim (input_value input)) (js ''}'') \<or>
             JSON_parse (trim (input_value input)) = None)"
  then have "collectParameters JSON_parse doc (js ''tags'') =
      collect_input JSON_parse Map.empty input (js ''tags'')"
    using collectParameters_form [OF assms, of JSON_parse] by simp
  then show "collectParameters JSON_parse doc (js ''tags'') = Some PEmptyObject"
    using a by (auto simp: collect_input_tags Let_def)
next
  assume "input_name input \<noteq> js ''tags''"
  then show "collectParameters JSON_parse doc (input_name input) = Some (PStr (input_value input))"
    using collectParameters_form [OF assms, of JSON_parse] assms(4,5)
    by (simp add: collect_input_text)
qed

theorem only_tags_fall_back_to_empty_object_witness:
  "collectParameters (Map.empty :: jsstring \<Rightarrow> unit option)
      \<lparr>resourceGroupField = None, locationField = None, subscriptionField = None,
       parametersForm = Some [\<lparr>input_name = js ''tags'', input_value = js ''{oops''\<rparr>,
                              \<lparr>input_name = js ''sku'', input_value = js ''S1''\<rparr>],
       deployButton = True\<rparr> (js ''tags'') = Some PEmptyObject \<and>
   collectParameters (Map.empty :: jsstring \<Rightarrow> unit option)
      \<lparr>resourceGroupField = None, locationField = None, subscriptionField = None,
       parametersForm = Some [\<lparr>input_name = js ''tags'', input_value = js ''{oops''\<rparr>,
                              \<lparr>input_name = js ''sku'', input_value = js ''S1''\<rparr>],
       deployButton = True\<rparr> (js ''sku'') = Some (PStr (js ''S1''))"
  using only_tags_fall_back_to_empty_object [of
      "\<lparr>resourceGroupField = None, locationField = None, subscriptionField = None,
       parametersForm = Some [\<lparr>input_name = js ''tags'', input_value = js ''{oops''\<rparr>,
                              \<lparr>input_name = js ''sku'', input_value = js ''S1''\<rparr>],
       deployButton = True\<rparr>"
      "[\<lparr>input_name = js ''tags'', input_value = js ''{oops''\<rparr>,
        \<lparr>input_name = js ''sku'', input_value = js ''S1''\<rparr>]"
      "\<lparr>input_name = js ''tags'', input_value = js ''{oops''\<rparr>" "Map.empty :: jsstring \<Rightarrow> unit option"]
    only_tags_fall_back_to_empty_object [of
      "\<lparr>resourceGroupField = None, locationField = None, subscriptionField = None,
       parametersForm = Some [\<lparr>input_name = js ''tags'', input_value = js ''{oops''\<rparr>,
                              \<lparr>input_name = js ''sku'', input_value = js ''S1''\<rparr>],
       deployButton = True\<rparr>"
      "[\<lparr>input_name = js ''tags'', input_value = js ''{oops''\<rparr>,
        \<lparr>input_name = js ''sku'', input_value = js ''S1''\<rparr>]"
      "\<lparr>input_name = js ''sku'', input_value = js ''S1''\<rparr>" "Map.empty :: jsstring \<Rightarrow> unit option"]
  by (simp add: js_def ch_def)

text \<open>
  The claim as written fails: an array parameter and an object parameter other than
  \<open>tags\<close> are rendered as JSON editors, and for texts that are not JSON (with a parser
  that rejects every text) the collected values are those texts, not \<open>[]\<close> and \<open>{}\<close>.
\<close>

theorem json_editor_text_collected_raw_counterexample:
  "control_for (js ''subnets'') \<lparr>allowedValues_length = None, param_type = Some (js ''array'')\<rparr> =
     ArrayEditor \<and>
   control_for (js ''settings'') \<lparr>allowedValues_length = None, param_type = Some (js ''object'')\<rparr> =
     ObjectEditor \<and>
   collectParameters (Map.empty :: jsstring \<Rightarrow> unit option)
      \<lparr>resourceGroupField = None, locationField = None, subscriptionField = None,
       parametersForm = Some [\<lparr>input_name = js ''subnets'', input_value = js ''[1,2''\<rparr>,
                              \<lparr>input_name = js ''settings'', input_value = js ''{oops''\<rparr>],
       deployButton = True\<rparr> (js ''subnets'') = Some (PStr (js ''[1,2'')) \<and>
   collectParameters (Map.empty :: jsstring \<Rightarrow> unit option)
      \<lparr>resourceGroupField = None, locationField = None, subscriptionField = None,
       parametersForm = Some [\<lparr>input_name = js ''subnets'', input_value = js ''[1,2''\<rparr>,
                              \<lparr>input_name = js ''settings'', input_value = js ''{oops''\<rparr>],
       deployButton = True\<rparr> (js ''settings'') = Some (PStr (js ''{oops''))"
  by (simp add: control_for_def collectParameters_def collect_input_def assign_def js_def ch_def)

end
